theory Spec2Isabelle
  imports Complex_Main "HOL-Library.Multiset"
begin

section \<open>Data model\<close>

text \<open>
  The program is the command-line tool of \<^verbatim>\<open>src/unnamed/part_000\<close> (the current format);
  the legacy format is the earlier revision of the same file kept in the repository's
  documentation bundle. Strings are byte lists (UTF-8, as Go holds them); an \<^verbatim>\<open>error\<close> value
  is its message. Fields keep the names of the source; where two structs share a field name
  it carries a prefix: \<open>dim_\<close> in \<^verbatim>\<open>MetricMappingDimensions\<close>, \<open>mm_\<close> in \<^verbatim>\<open>MetricMapping\<close>, and
  \<open>md_Value\<close> is the \<^verbatim>\<open>Value\<close> of a \<^verbatim>\<open>types.MetricDatum\<close>.
\<close>

text \<open>
  A \<^verbatim>\<open>float64\<close> is a finite double (\<open>Float x\<close> is the double of value \<open>x\<close>, the positive zero
  when \<open>x = 0\<close>), the negative zero, an infinity or NaN. The values of a run are doubles: a
  value of the data file is the double nearest to the decimal number written there, and the
  result of an operation is rounded to a double. Two values are equal here when they are the
  same float.
\<close>

datatype float64 = Float real | NegZero | PosInf | NegInf | NaN

type_synonym error = string
type_synonym instant = int

record MetricMappingDimensions =
  dim_Name :: string
  dim_Value :: string

record MetricMapping =
  mm_Name :: string
  mm_Dimensions :: "MetricMappingDimensions list"

record Config =
  Region :: string
  Profile :: string
  SkipPublish :: bool
  MetricNamespace :: string
  MetricMappings :: "string \<rightharpoonup> MetricMapping"

type_synonym PerformanceData = "string \<rightharpoonup> float64"

text \<open>The types of the CloudWatch SDK that the program fills in.\<close>

record Dimension =
  Name :: string
  Value :: string

datatype StandardUnit = StandardUnitCount

record MetricDatum =
  MetricName :: string
  md_Value :: float64
  Timestamp :: instant
  Unit :: StandardUnit
  Dimensions :: "Dimension list"

record PutMetricDataInput =
  Namespace :: string
  MetricData :: "MetricDatum list"

text \<open>
  A cell of \<^verbatim>\<open>pterm.TableData\<close> is a string. The value column holds \<^verbatim>\<open>fmt.Sprint\<close> of a
  float, kept here as the float that is formatted.
\<close>

datatype cell = Str string | Sprint float64

type_synonym TableData = "cell list list"

datatype printed = Print string | Table TableData

section \<open>The environment of one run\<close>

text \<open>
  Everything the run takes from outside the two parsed documents: the command-line flag,
  the order in which each \<^verbatim>\<open>range\<close> statement visits the keys of the data map (Go leaves
  it unspecified, and it may differ between two loops over the same map), the result of
  rendering the table (the table printer is a library; its \<^verbatim>\<open>Render\<close> returns an error
  value, which the program tests), the successive results of \<^verbatim>\<open>reader.ReadString\<close>, the clock, the
  answer of the remote service to the k-th call, and whether the toolchain gives a
  \<^verbatim>\<open>for\<close> loop one variable per iteration (Go 1.22 on) or one variable for the whole loop.
\<close>

text \<open>
  A read that succeeds gives the line with its line feed; one that fails (the end of the
  input included, also after a last line without line feed) gives the error.
\<close>

datatype read = Line string | ReadError error

record World =
  cliNoninteractive :: bool
  range_printTable :: "string list"
  range_publishMetrics :: "string list"
  Render :: "TableData \<Rightarrow> error option"
  ReadString :: "nat \<Rightarrow> read"
  Now :: "nat \<Rightarrow> instant"
  PutMetricData :: "nat \<Rightarrow> PutMetricDataInput \<Rightarrow> error option"
  loopvar_per_iteration :: bool

text \<open>The key-value pairs a \<^verbatim>\<open>range\<close> over the map yields when it visits the keys in the order \<open>ks\<close>.\<close>

definition range_map :: "('k \<rightharpoonup> 'v) \<Rightarrow> 'k list \<Rightarrow> ('k \<times> 'v) list" where
  "range_map m ks = List.map_filter (\<lambda>k. map_option (Pair k) (m k)) ks"

text \<open>\<open>ks\<close> is an order a \<^verbatim>\<open>range\<close> over \<open>m\<close> can take: every key of the map, once.\<close>

definition traversal :: "('k \<rightharpoonup> 'v) \<Rightarrow> 'k list \<Rightarrow> bool" where
  "traversal m ks = (distinct ks \<and> set ks = dom m)"

section \<open>Arithmetic and library functions\<close>

subsection \<open>Binary floating point\<close>

text \<open>
  IEEE 754 binary64 with the default rounding, to nearest and ties to even: a result is
  computed exactly and rounded to 53 significant bits, or to a multiple of \<open>2\<^sup>-\<^sup>1\<^sup>0\<^sup>7\<^sup>4\<close> where
  that is coarser (the subnormal range), and it overflows to an infinity beyond the largest
  double. \<open>floor_log2 n\<close> is the position of the highest bit of \<open>n\<close>, \<open>ilog2 x\<close> the binary
  exponent of a positive \<open>x\<close>, with \<open>2\<^sup>e \<le> x < 2\<^sup>e\<^sup>+\<^sup>1\<close>.
\<close>

fun floor_log2 :: "nat \<Rightarrow> nat" where
  "floor_log2 n = (if n < 2 then 0 else Suc (floor_log2 (n div 2)))"

declare floor_log2.simps [simp del]

definition ilog2 :: "real \<Rightarrow> int" where
  "ilog2 x =
     (if 1 \<le> x then int (floor_log2 (nat \<lfloor>x\<rfloor>))
      else - int (Suc (floor_log2 (nat (\<lceil>1 / x\<rceil> - 1)))))"

definition pow2 :: "int \<Rightarrow> real" where
  "pow2 e = (if 0 \<le> e then 2 ^ nat e else 1 / 2 ^ nat (- e))"

definition round_half_even :: "real \<Rightarrow> int" where
  "round_half_even y =
     (if y - of_int \<lfloor>y\<rfloor> < 1 / 2 then \<lfloor>y\<rfloor>
      else if 1 / 2 < y - of_int \<lfloor>y\<rfloor> then \<lfloor>y\<rfloor> + 1
      else if even \<lfloor>y\<rfloor> then \<lfloor>y\<rfloor>
      else \<lfloor>y\<rfloor> + 1)"

text \<open>The real number a result is rounded to, before the test for overflow.\<close>

definition binary64 :: "real \<Rightarrow> real" where
  "binary64 x =
     (if x = 0 then 0
      else of_int (round_half_even (x / pow2 (max (ilog2 \<bar>x\<bar> - 52) (- 1074)))) *
           pow2 (max (ilog2 \<bar>x\<bar> - 52) (- 1074)))"

definition max_float :: real where
  "max_float = (2 ^ 53 - 1) * 2 ^ 971"

text \<open>
  The float of a rounded result \<open>r\<close> whose sign is known: an infinity when \<open>r\<close> is beyond the
  largest double, the negative zero when \<open>r\<close> is zero and the sign negative.
\<close>

definition pack :: "bool \<Rightarrow> real \<Rightarrow> float64" where
  "pack negative r =
     (if max_float < \<bar>r\<bar> then (if negative then NegInf else PosInf)
      else if r = 0 \<and> negative then NegZero
      else Float r)"

text \<open>
  The program multiplies and divides a float by the constants 100 and 10 only: \<open>fmul v c\<close>
  is \<^verbatim>\<open>v * c\<close> and \<open>fdiv v c\<close> is \<^verbatim>\<open>v / c\<close> for a positive finite constant \<open>c\<close>.
\<close>

fun fmul :: "float64 \<Rightarrow> real \<Rightarrow> float64" where
  "fmul (Float x) c = pack (x < 0) (binary64 (x * c))"
| "fmul NegZero c = NegZero"
| "fmul PosInf c = PosInf"
| "fmul NegInf c = NegInf"
| "fmul NaN c = NaN"

declare fmul.simps [simp del]

fun fdiv :: "float64 \<Rightarrow> real \<Rightarrow> float64" where
  "fdiv (Float x) c = pack (x < 0) (binary64 (x / c))"
| "fdiv NegZero c = NegZero"
| "fdiv PosInf c = PosInf"
| "fdiv NegInf c = NegInf"
| "fdiv NaN c = NaN"

declare fdiv.simps [simp del]

subsection \<open>Library functions\<close>

text \<open>
  \<^verbatim>\<open>math.Round\<close>, from its documentation: the nearest integer, rounding half away from zero,
  exactly; the zeros, the infinities and NaN are returned as they are, and a negative value
  that rounds to zero gives the negative zero.
\<close>

definition round_half_away :: "real \<Rightarrow> real" where
  "round_half_away x = (if x < 0 then - of_int \<lfloor>- x + 1 / 2\<rfloor> else of_int \<lfloor>x + 1 / 2\<rfloor>)"

fun Round :: "float64 \<Rightarrow> float64" where
  "Round (Float x) = pack (x < 0) (round_half_away x)"
| "Round NegZero = NegZero"
| "Round PosInf = PosInf"
| "Round NegInf = NegInf"
| "Round NaN = NaN"

declare Round.simps [simp del]

text \<open>
  \<^verbatim>\<open>strings.TrimSpace\<close>, from its documentation and its source: it removes the leading and the
  trailing white space, as Unicode defines it. On the bytes of the string these are the six
  ASCII characters tab, line feed, vertical tab, form feed, carriage return and space, the
  two-byte encodings of U+0085 and U+00A0, and the three-byte encodings of U+1680, U+2000 to
  U+200A, U+2028, U+2029, U+202F, U+205F and U+3000. A rune is decoded from the front by its
  first bytes and from the back by its last bytes, and an encoding of a white space rune is
  a valid one, so the removal is the removal of these byte sequences, whatever the other
  bytes are.
\<close>

definition isSpace :: "char \<Rightarrow> bool" where
  "isSpace c = (c = CHR 0x09 \<or> c = CHR 0x0A \<or> c = CHR 0x0B \<or> c = CHR 0x0C \<or> c = CHR 0x0D \<or> c = CHR '' '')"

definition isSpace2 :: "char \<Rightarrow> char \<Rightarrow> bool" where
  "isSpace2 a b = (a = CHR 0xC2 \<and> (b = CHR 0x85 \<or> b = CHR 0xA0))"

definition isSpace3 :: "char \<Rightarrow> char \<Rightarrow> char \<Rightarrow> bool" where
  "isSpace3 a b c =
     (a = CHR 0xE1 \<and> b = CHR 0x9A \<and> c = CHR 0x80 \<or>
      a = CHR 0xE2 \<and> b = CHR 0x80 \<and>
        c \<in> set [CHR 0x80, CHR 0x81, CHR 0x82, CHR 0x83, CHR 0x84, CHR 0x85, CHR 0x86, CHR 0x87,
                  CHR 0x88, CHR 0x89, CHR 0x8A, CHR 0xA8, CHR 0xA9, CHR 0xAF] \<or>
      a = CHR 0xE2 \<and> b = CHR 0x81 \<and> c = CHR 0x9F \<or>
      a = CHR 0xE3 \<and> b = CHR 0x80 \<and> c = CHR 0x80)"

text \<open>
  Removal from the front, given the tests for a two-byte and a three-byte white space at
  the front; removal from the back is removal from the front of the reversed string, with
  the bytes of an encoding read in reverse.
\<close>

fun trim_front ::
  "(char \<Rightarrow> char \<Rightarrow> bool) \<Rightarrow> (char \<Rightarrow> char \<Rightarrow> char \<Rightarrow> bool) \<Rightarrow> string \<Rightarrow> string" where
  "trim_front two three (a # b # c # s) =
     (if isSpace a then trim_front two three (b # c # s)
      else if two a b then trim_front two three (c # s)
      else if three a b c then trim_front two three s
      else a # b # c # s)"
| "trim_front two three [a, b] =
     (if isSpace a then trim_front two three [b] else if two a b then [] else [a, b])"
| "trim_front two three [a] = (if isSpace a then [] else [a])"
| "trim_front two three [] = []"

definition TrimLeft :: "string \<Rightarrow> string" where
  "TrimLeft s = trim_front isSpace2 isSpace3 s"

definition TrimRight :: "string \<Rightarrow> string" where
  "TrimRight s = rev (trim_front (\<lambda>b a. isSpace2 a b) (\<lambda>c b a. isSpace3 a b c) (rev s))"

definition TrimSpace :: "string \<Rightarrow> string" where
  "TrimSpace s = TrimRight (TrimLeft s)"

text \<open>
  \<^verbatim>\<open>strings.ToLower\<close> on the bytes: the ASCII capitals are lower-cased and every other byte is
  kept. Go also maps the runes outside ASCII (and replaces invalid bytes by U+FFFD), but the
  only such runes with an ASCII lower case are U+0130 and U+212A, which give \<^verbatim>\<open>i\<close> and \<^verbatim>\<open>k\<close>: a
  string with a byte outside ASCII is none of \<^verbatim>\<open>y\<close>, \<^verbatim>\<open>yes\<close>, \<^verbatim>\<open>n\<close> and \<^verbatim>\<open>no\<close> after either, and
  \<^verbatim>\<open>confirm\<close> uses the result for that comparison only.
\<close>

definition toLower :: "char \<Rightarrow> char" where
  "toLower c =
     (case map_of (zip ''ABCDEFGHIJKLMNOPQRSTUVWXYZ'' ''abcdefghijklmnopqrstuvwxyz'') c of
        None \<Rightarrow> c
      | Some l \<Rightarrow> l)"

definition ToLower :: "string \<Rightarrow> string" where
  "ToLower s = map toLower s"

section \<open>printTable\<close>

text \<open>Indexing a Go map at a key it does not hold gives the zero value of the element type.\<close>

definition zero_MetricMapping :: MetricMapping where
  "zero_MetricMapping = \<lparr>mm_Name = [], mm_Dimensions = []\<rparr>"

definition index_MetricMappings :: "Config \<Rightarrow> string \<Rightarrow> MetricMapping" where
  "index_MetricMappings config key =
     (case MetricMappings config key of None \<Rightarrow> zero_MetricMapping | Some m \<Rightarrow> m)"

text \<open>The inner loop of \<^verbatim>\<open>printTable\<close>: \<^verbatim>\<open>dimensions += fmt.Sprintf("%s=%s ", v.Name, v.Value)\<close>.\<close>

definition dimensions_text :: "MetricMappingDimensions list \<Rightarrow> string" where
  "dimensions_text ds =
     foldl (\<lambda>dimensions v. dimensions @ dim_Name v @ ''='' @ dim_Value v @ '' '') [] ds"

definition table_row :: "Config \<Rightarrow> string \<times> float64 \<Rightarrow> cell list" where
  "table_row config kv =
     [Str (mm_Name (index_MetricMappings config (fst kv))),
      Sprint (fdiv (Round (fmul (snd kv) 100)) 100),
      Str (dimensions_text (mm_Dimensions (index_MetricMappings config (fst kv))))]"

definition table_header :: "cell list" where
  "table_header = [Str ''Metric name'', Str ''Value'', Str ''Dimensions'']"

definition build_table :: "World \<Rightarrow> PerformanceData \<Rightarrow> Config \<Rightarrow> TableData" where
  "build_table w data config =
     foldl (\<lambda>tableData kv. tableData @ [table_row config kv]) [table_header]
       (range_map data (range_printTable w))"

text \<open>
  \<^verbatim>\<open>printTable\<close> returns the error of \<^verbatim>\<open>Render\<close>; the second component is what it wrote to
  the standard output. A render that fails is taken to have written nothing.
\<close>

definition printTable :: "World \<Rightarrow> PerformanceData \<Rightarrow> Config \<Rightarrow> error option \<times> printed list" where
  "printTable w data config =
     (let tableData = build_table w data config in
      case Render w tableData of
        Some err \<Rightarrow> (Some err, [Print ''Metrics to be published:''])
      | None \<Rightarrow> (None, [Print ''Metrics to be published:'', Table tableData]))"

section \<open>confirm\<close>

text \<open>
  The loop of \<^verbatim>\<open>confirm\<close> has no bound, so the function is partial: \<open>None\<close> is the run that
  prompts for ever. The reader is created on entry, and nothing else of the program reads
  the standard input, so the first read is read 0. The result is the answer, the standard
  output extended by what was written, and the number of reads made.
\<close>

partial_function (option) confirm_loop ::
  "World \<Rightarrow> string \<Rightarrow> nat \<Rightarrow> printed list \<Rightarrow> (bool \<times> printed list \<times> nat) option" where
  "confirm_loop w prompt n out =
     (let out = out @ [Print (prompt @ '' [y/n]: '')] in
      case ReadString w n of
        ReadError err \<Rightarrow> Some (False, out @ [Print (''Error reading input: '' @ err)], Suc n)
      | Line response \<Rightarrow>
          (let response = ToLower (TrimSpace response) in
           if response = ''y'' \<or> response = ''yes'' then Some (True, out, Suc n)
           else if response = ''n'' \<or> response = ''no'' then Some (False, out, Suc n)
           else confirm_loop w prompt (Suc n)
                  (out @ [Print ''Invalid input. Please enter 'y' or 'n'.''])))"

definition confirm :: "World \<Rightarrow> string \<Rightarrow> printed list \<Rightarrow> (bool \<times> printed list \<times> nat) option" where
  "confirm w prompt out = confirm_loop w prompt 0 out"

section \<open>publishMetrics\<close>

text \<open>
  The inner loop of \<^verbatim>\<open>publishMetrics\<close> appends one \<^verbatim>\<open>types.Dimension\<close> per configured
  dimension, holding the addresses \<^verbatim>\<open>&dimension.Name\<close> and \<^verbatim>\<open>&dimension.Value\<close> of the loop
  variable. With one variable per iteration each entry keeps its own name and value; with
  one variable for the whole loop every entry points at the same variable, which holds the
  last dimension once the loop is over.
\<close>

definition to_Dimension :: "MetricMappingDimensions \<Rightarrow> Dimension" where
  "to_Dimension dimension = \<lparr>Name = dim_Name dimension, Value = dim_Value dimension\<rparr>"

definition append_Dimensions :: "World \<Rightarrow> MetricMappingDimensions list \<Rightarrow> Dimension list" where
  "append_Dimensions w ds =
     (if loopvar_per_iteration w then map to_Dimension ds
      else (case ds of [] \<Rightarrow> [] | _ # _ \<Rightarrow> replicate (length ds) (to_Dimension (last ds))))"

text \<open>
  One iteration of the outer loop. \<^verbatim>\<open>time.Now()\<close> is called once per appended datum and
  nowhere else, so the call that stamps a datum is the one numbered by the length of
  \<^verbatim>\<open>metricData\<close> before the append.
\<close>

definition append_MetricDatum :: "World \<Rightarrow> Config \<Rightarrow> MetricDatum list \<Rightarrow> string \<times> float64 \<Rightarrow> MetricDatum list" where
  "append_MetricDatum w config metricData kv =
     (case MetricMappings config (fst kv) of
        None \<Rightarrow> metricData
      | Some metric \<Rightarrow>
          (let metricValue = fdiv (Round (fmul (snd kv) 100)) 100;
               metricDatum = \<lparr>MetricName = mm_Name metric, md_Value = metricValue,
                              Timestamp = Now w (length metricData), Unit = StandardUnitCount,
                              Dimensions = []\<rparr>;
               metricDatum = metricDatum\<lparr>Dimensions := append_Dimensions w (mm_Dimensions metric)\<rparr>
           in metricData @ [metricDatum]))"

definition build_metricData :: "World \<Rightarrow> PerformanceData \<Rightarrow> Config \<Rightarrow> MetricDatum list" where
  "build_metricData w data config =
     foldl (append_MetricDatum w config) [] (range_map data (range_publishMetrics w))"

text \<open>
  What a run of \<^verbatim>\<open>publishMetrics\<close> leaves behind: the error it returns, what it wrote to
  the standard output, the inputs of the calls made to the remote service, in order, and
  the number of reads made from the standard input.
\<close>

record Run =
  returned :: "error option"
  stdout :: "printed list"
  calls :: "PutMetricDataInput list"
  reads :: nat

text \<open>The condition of line 202: the flag short-cuts the call of \<^verbatim>\<open>confirm\<close>.\<close>

definition proceed :: "World \<Rightarrow> printed list \<Rightarrow> (bool \<times> printed list \<times> nat) option" where
  "proceed w out =
     (if cliNoninteractive w then Some (True, out, 0) else confirm w ''Do you want to proceed?'' out)"

definition publishMetrics :: "World \<Rightarrow> PerformanceData \<Rightarrow> Config \<Rightarrow> Run option" where
  "publishMetrics w data config =
     (case printTable w data config of
        (Some err, out) \<Rightarrow> Some \<lparr>returned = Some err, stdout = out, calls = [], reads = 0\<rparr>
      | (None, out) \<Rightarrow>
          if SkipPublish config then
            Some \<lparr>returned = None,
                  stdout = out @ [Print ''You have elected to not publish these metrics, exiting...''],
                  calls = [], reads = 0\<rparr>
          else
            (let metricData = build_metricData w data config;
                 input = \<lparr>Namespace = MetricNamespace config, MetricData = metricData\<rparr>
             in case proceed w out of
                  None \<Rightarrow> None
                | Some (True, out, n) \<Rightarrow>
                    (case PutMetricData w 0 input of
                       Some err \<Rightarrow> Some \<lparr>returned = Some err, stdout = out, calls = [input], reads = n\<rparr>
                     | None \<Rightarrow>
                         Some \<lparr>returned = None,
                               stdout = out @ [Print ''Metrics published successfully!''],
                               calls = [input], reads = n\<rparr>)
                | Some (False, out, n) \<Rightarrow>
                    Some \<lparr>returned = None, stdout = out @ [Print ''Operation cancelled.''],
                          calls = [], reads = n\<rparr>))"

section \<open>The legacy format\<close>









section \<open>Vocabulary of the specification\<close>

text \<open>
  Rounding half away from zero to a number of decimal places, as the specification words
  it: the magnitude is rounded to the nearest multiple of the unit, a tie going up, and the
  sign is put back.
\<close>

definition round_half_away_from_zero :: "nat \<Rightarrow> real \<Rightarrow> real" where
  "round_half_away_from_zero digits x =
     sgn x * of_int \<lfloor>\<bar>x\<bar> * 10 ^ digits + 1 / 2\<rfloor> / 10 ^ digits"

text \<open>A read that decides nothing: a line that is none of the four accepted answers.\<close>

definition reprompts :: "read \<Rightarrow> bool" where
  "reprompts r =
     (case r of
        ReadError err \<Rightarrow> False
      | Line response \<Rightarrow> ToLower (TrimSpace response) \<notin> {''y'', ''yes'', ''n'', ''no''})"

text \<open>What \<open>k\<close> undecided rounds write: the prompt and the complaint, \<open>k\<close> times.\<close>

definition reprompted :: "string \<Rightarrow> nat \<Rightarrow> printed list" where
  "reprompted prompt k =
     concat (replicate k
       [Print (prompt @ '' [y/n]: ''), Print ''Invalid input. Please enter 'y' or 'n'.''])"

text \<open>A metric datum without its time stamp: name, value and dimensions.\<close>

definition record_of :: "MetricDatum \<Rightarrow> string \<times> float64 \<times> Dimension list" where
  "record_of d = (MetricName d, md_Value d, Dimensions d)"

text \<open>What \<^verbatim>\<open>printTable\<close> writes when the table renders.\<close>

definition preview :: "World \<Rightarrow> PerformanceData \<Rightarrow> Config \<Rightarrow> printed list" where
  "preview w data config = [Print ''Metrics to be published:'', Table (build_table w data config)]"

text \<open>The \<^verbatim>\<open>input\<close> of \<^verbatim>\<open>publishMetrics\<close>: every assembled datum, under the configured namespace.\<close>

definition batch :: "World \<Rightarrow> PerformanceData \<Rightarrow> Config \<Rightarrow> PutMetricDataInput" where
  "batch w data config =
     \<lparr>Namespace = MetricNamespace config, MetricData = build_metricData w data config\<rparr>"

section \<open>Example inputs\<close>

text \<open>The data and the mappings of the specification's worked example.\<close>

definition example_data :: PerformanceData where
  "example_data = [''a'' \<mapsto> Float 1.25, ''b'' \<mapsto> Float 2]"

definition example_mappings :: "string \<rightharpoonup> MetricMapping" where
  "example_mappings =
     [''a'' \<mapsto> \<lparr>mm_Name = ''A'', mm_Dimensions = []\<rparr>,
      ''b'' \<mapsto> \<lparr>mm_Name = ''B'',
                 mm_Dimensions = [\<lparr>dim_Name = ''Goal'', dim_Value = ''Fitness''\<rparr>]\<rparr>]"

definition example_config :: Config where
  "example_config =
     \<lparr>Region = ''ap-southeast-2'', Profile = ''my-aws-profile'', SkipPublish = False,
      MetricNamespace = ''Personal/Performance'', MetricMappings = example_mappings\<rparr>"


text \<open>
  An interactive run in which the two loops visit the keys in different orders, the table
  renders, the user types \<^verbatim>\<open>maybe\<close> and then \<^verbatim>\<open>yes\<close> between spaces, and the service accepts.
\<close>

definition example_world :: World where
  "example_world =
     \<lparr>cliNoninteractive = False,
      range_printTable = [''a'', ''b''],
      range_publishMetrics = [''b'', ''a''],
      Render = (\<lambda>tableData. None),
      ReadString = (\<lambda>n. if n = 0 then Line (''maybe'' @ [CHR 0x0A]) else Line ('' yes '' @ [CHR 0x0A])),
      Now = (\<lambda>n. 1700000000 + int n),
      PutMetricData = (\<lambda>n input. None),
      loopvar_per_iteration = True\<rparr>"

section \<open>Evaluation of the library functions\<close>

lemmas trim = TrimSpace_def TrimLeft_def TrimRight_def isSpace_def isSpace2_def isSpace3_def

text \<open>The highest bit of a numeral, read off its binary digits.\<close>

lemma floor_log2_numeral:
  "floor_log2 0 = 0"
  "floor_log2 (Suc 0) = 0"
  "floor_log2 (numeral Num.One) = 0"
  "floor_log2 (numeral (Num.Bit0 k)) = 1 + floor_log2 (numeral k)"
  "floor_log2 (numeral (Num.Bit1 k)) = 1 + floor_log2 (numeral k)"
proof -
  show "floor_log2 0 = 0" "floor_log2 (Suc 0) = 0" "floor_log2 (numeral Num.One) = 0"
    by (simp_all add: floor_log2.simps)
  have "numeral (Num.Bit0 k) = 2 * (numeral k :: nat)"
    by (simp add: numeral_Bit0 mult_2)
  then show "floor_log2 (numeral (Num.Bit0 k)) = 1 + floor_log2 (numeral k)"
    by (subst floor_log2.simps) simp
  have "numeral (Num.Bit1 k) = 2 * (numeral k :: nat) + 1"
    by (simp add: numeral_Bit1 mult_2)
  then show "floor_log2 (numeral (Num.Bit1 k)) = 1 + floor_log2 (numeral k)"
    by (subst floor_log2.simps) simp
qed

lemmas fl = binary64_def ilog2_def pow2_def round_half_even_def floor_log2_numeral max_float_def
  pack_def round_half_away_def fmul.simps fdiv.simps Round.simps

text \<open>
  The values of the examples: 1.25, 1, 2, 3 and 7 are doubles, their products by 100 and by
  10 are exact, and so are the quotients, but for 1.3, which is not a double.
\<close>

lemma rounded_examples:
  "fdiv (Round (fmul (Float (5 / 4)) 100)) 100 = Float (5 / 4)"
  "fdiv (Round (fmul (Float 1) 100)) 100 = Float 1"
  "fdiv (Round (fmul (Float 2) 100)) 100 = Float 2"
  "fdiv (Round (fmul (Float 3) 100)) 100 = Float 3"
  "fdiv (Round (fmul (Float 7) 100)) 100 = Float 7"
  "fdiv (Round (fmul (Float (5 / 4)) 10)) 10 = Float (binary64 (13 / 10))"
  "fdiv (Round (fmul (Float 1) 10)) 10 = Float 1"
  "fdiv (Round (fmul (Float 2) 10)) 10 = Float 2"
  "fdiv (Round (fmul (Float 3) 10)) 10 = Float 3"
  by (simp_all add: fl)

section \<open>The two loops as maps over the traversal\<close>

lemma foldl_snoc_map: "foldl (\<lambda>acc x. acc @ [f x]) a xs = a @ map f xs"
  by (induction xs arbitrary: a) simp_all

lemma build_table_rows:
  "build_table w data config =
     table_header # map (table_row config) (range_map data (range_printTable w))"
  by (simp add: build_table_def foldl_snoc_map)


lemma range_map_Nil: "range_map m [] = []"
  by (simp add: range_map_def)

lemma range_map_Cons:
  "range_map m (k # ks) =
     (case m k of None \<Rightarrow> range_map m ks | Some v \<Rightarrow> (k, v) # range_map m ks)"
  by (simp add: range_map_def split: option.splits)

lemma range_map_in:
  "kv \<in> set (range_map m ks) \<longleftrightarrow> fst kv \<in> set ks \<and> m (fst kv) = Some (snd kv)"
  by (induction ks) (auto simp: range_map_Nil range_map_Cons split: option.splits)

lemma range_map_traversal:
  "set ks \<subseteq> dom m \<Longrightarrow> range_map m ks = map (\<lambda>k. (k, the (m k))) ks"
  by (induction ks) (auto simp: range_map_Nil range_map_Cons split: option.splits)

lemma filter_mapped_range_map:
  "set ks \<subseteq> dom m \<Longrightarrow>
   filter (\<lambda>kv. fst kv \<in> D) (range_map m ks) =
     map (\<lambda>k. (k, the (m k))) (filter (\<lambda>k. k \<in> D) ks)"
  by (simp add: range_map_traversal filter_map comp_def)

lemma length_filter_traversal:
  assumes "traversal m ks"
  shows "length (filter (\<lambda>k. k \<in> D) ks) = card (dom m \<inter> D)"
proof -
  have "distinct (filter (\<lambda>k. k \<in> D) ks)"
    using assms by (simp add: traversal_def)
  moreover have "set (filter (\<lambda>k. k \<in> D) ks) = dom m \<inter> D"
    using assms by (auto simp: traversal_def)
  ultimately show ?thesis
    by (metis distinct_card)
qed

lemma append_MetricDatum_unmapped:
  "MetricMappings config (fst kv) = None \<Longrightarrow>
   append_MetricDatum w config metricData kv = metricData"
  by (simp add: append_MetricDatum_def)

lemma append_MetricDatum_mapped:
  "MetricMappings config (fst kv) = Some metric \<Longrightarrow>
   append_MetricDatum w config metricData kv =
     metricData @ [\<lparr>MetricName = mm_Name metric, md_Value = fdiv (Round (fmul (snd kv) 100)) 100,
                     Timestamp = Now w (length metricData), Unit = StandardUnitCount,
                     Dimensions = append_Dimensions w (mm_Dimensions metric)\<rparr>]"
  by (simp add: append_MetricDatum_def Let_def)

lemma foldl_append_MetricDatum_length:
  "length (foldl (append_MetricDatum w config) acc kvs) =
     length acc + length (filter (\<lambda>kv. fst kv \<in> dom (MetricMappings config)) kvs)"
proof (induction kvs arbitrary: acc)
  case Nil
  show ?case by simp
next
  case (Cons kv kvs)
  show ?case
    by (cases "MetricMappings config (fst kv)")
       (simp_all add: Cons append_MetricDatum_unmapped append_MetricDatum_mapped domIff)
qed

lemma foldl_append_MetricDatum_records:
  "map record_of (foldl (append_MetricDatum w config) acc kvs) =
     map record_of acc @
     map (\<lambda>kv. (mm_Name (the (MetricMappings config (fst kv))),
                fdiv (Round (fmul (snd kv) 100)) 100,
                append_Dimensions w (mm_Dimensions (the (MetricMappings config (fst kv))))))
       (filter (\<lambda>kv. fst kv \<in> dom (MetricMappings config)) kvs)"
proof (induction kvs arbitrary: acc)
  case Nil
  show ?case by simp
next
  case (Cons kv kvs)
  show ?case
  proof (cases "MetricMappings config (fst kv)")
    case None
    then show ?thesis
      using Cons [of acc] by (simp add: append_MetricDatum_unmapped domIff)
  next
    case (Some metric)
    then show ?thesis
      using Cons [of "append_MetricDatum w config acc kv"]
      by (simp add: append_MetricDatum_mapped domIff record_of_def)
  qed
qed

lemma build_metricData_records:
  "map record_of (build_metricData w data config) =
     map (\<lambda>kv. (mm_Name (the (MetricMappings config (fst kv))),
                fdiv (Round (fmul (snd kv) 100)) 100,
                append_Dimensions w (mm_Dimensions (the (MetricMappings config (fst kv))))))
       (filter (\<lambda>kv. fst kv \<in> dom (MetricMappings config))
          (range_map data (range_publishMetrics w)))"
  by (simp add: build_metricData_def foldl_append_MetricDatum_records)

lemma build_metricData_length:
  "length (build_metricData w data config) =
     length (filter (\<lambda>kv. fst kv \<in> dom (MetricMappings config))
               (range_map data (range_publishMetrics w)))"
  by (simp add: build_metricData_def foldl_append_MetricDatum_length)

lemma build_metricData_unmapped:
  assumes "dom data \<inter> dom (MetricMappings config) = {}"
  shows "build_metricData w data config = []"
proof -
  have "filter (\<lambda>kv. fst kv \<in> dom (MetricMappings config))
          (range_map data (range_publishMetrics w)) = []"
    using assms by (fastforce simp: filter_empty_conv range_map_in disjoint_iff)
  then show ?thesis
    using build_metricData_length [of w data config] by simp
qed

section \<open>The confirmation loop\<close>

lemma confirm_loop_reprompt:
  "reprompts (ReadString w n) \<Longrightarrow>
   confirm_loop w prompt n out =
     confirm_loop w prompt (Suc n)
       (out @ [Print (prompt @ '' [y/n]: ''), Print ''Invalid input. Please enter 'y' or 'n'.''])"
  by (subst confirm_loop.simps) (auto simp: reprompts_def Let_def split: read.splits)

lemma confirm_loop_reprompts:
  "(\<forall>i<k. reprompts (ReadString w (n + i))) \<Longrightarrow>
   confirm_loop w prompt n out = confirm_loop w prompt (n + k) (out @ reprompted prompt k)"
proof (induction k arbitrary: n out)
  case 0
  show ?case by (simp add: reprompted_def)
next
  case (Suc k)
  have first: "reprompts (ReadString w n)"
    using Suc.prems by (metis add.right_neutral zero_less_Suc)
  have rest: "\<forall>i<k. reprompts (ReadString w (Suc n + i))"
    using Suc.prems by (metis Suc_less_eq add_Suc_shift)
  show ?case
    unfolding confirm_loop_reprompt [OF first, of prompt out]
    using Suc.IH [OF rest] by (simp add: reprompted_def)
qed

lemma confirm_loop_yes:
  "ReadString w n = Line response \<Longrightarrow> ToLower (TrimSpace response) \<in> {''y'', ''yes''} \<Longrightarrow>
   confirm_loop w prompt n out = Some (True, out @ [Print (prompt @ '' [y/n]: '')], Suc n)"
  by (subst confirm_loop.simps) (auto simp: Let_def)

lemma confirm_loop_no:
  "ReadString w n = Line response \<Longrightarrow> ToLower (TrimSpace response) \<in> {''n'', ''no''} \<Longrightarrow>
   confirm_loop w prompt n out = Some (False, out @ [Print (prompt @ '' [y/n]: '')], Suc n)"
  by (subst confirm_loop.simps) (auto simp: Let_def)

lemma confirm_loop_error:
  "ReadString w n = ReadError err \<Longrightarrow>
   confirm_loop w prompt n out =
     Some (False, out @ [Print (prompt @ '' [y/n]: ''), Print (''Error reading input: '' @ err)],
           Suc n)"
  by (subst confirm_loop.simps) (simp add: Let_def)

text \<open>A run of the loop that returns has met a read that decides.\<close>

lemma confirm_loop_Some_decides:
  assumes "confirm_loop w prompt n out = Some y"
  shows "\<exists>k. (\<forall>i<k. reprompts (ReadString w (n + i))) \<and> \<not> reprompts (ReadString w (n + k))"
proof (rule confirm_loop.raw_induct
    [OF _ assms, where P = "\<lambda>w prompt n out y.
       \<exists>k. (\<forall>i<k. reprompts (ReadString w (n + i))) \<and> \<not> reprompts (ReadString w (n + k))"])
  fix f :: "World \<Rightarrow> string \<Rightarrow> nat \<Rightarrow> printed list \<Rightarrow> (bool \<times> printed list \<times> nat) option"
  fix w :: World and prompt :: string and n :: nat and out :: "printed list"
  fix y :: "bool \<times> printed list \<times> nat"
  assume IH: "\<And>w prompt n out y. f w prompt n out = Some y \<Longrightarrow>
     \<exists>k. (\<forall>i<k. reprompts (ReadString w (n + i))) \<and> \<not> reprompts (ReadString w (n + k))"
  assume body: "(let out = out @ [Print (prompt @ '' [y/n]: '')] in
      case ReadString w n of
        ReadError err \<Rightarrow> Some (False, out @ [Print (''Error reading input: '' @ err)], Suc n)
      | Line response \<Rightarrow>
          (let response = ToLower (TrimSpace response) in
           if response = ''y'' \<or> response = ''yes'' then Some (True, out, Suc n)
           else if response = ''n'' \<or> response = ''no'' then Some (False, out, Suc n)
           else f w prompt (Suc n)
                  (out @ [Print ''Invalid input. Please enter 'y' or 'n'.'']))) = Some y"
  show "\<exists>k. (\<forall>i<k. reprompts (ReadString w (n + i))) \<and> \<not> reprompts (ReadString w (n + k))"
  proof (cases "reprompts (ReadString w n)")
    case False
    then have "(\<forall>i<0::nat. reprompts (ReadString w (n + i))) \<and> \<not> reprompts (ReadString w (n + 0))"
      by simp
    then show ?thesis by blast
  next
    case True
    then have "f w prompt (Suc n)
        (out @ [Print (prompt @ '' [y/n]: ''), Print ''Invalid input. Please enter 'y' or 'n'.'']) = Some y"
      using body by (auto simp: reprompts_def Let_def split: read.splits if_splits)
    from IH [OF this] obtain k where
      k: "\<forall>i<k. reprompts (ReadString w (Suc n + i))" "\<not> reprompts (ReadString w (Suc n + k))"
      by blast
    have "\<forall>i<Suc k. reprompts (ReadString w (n + i))"
    proof (intro allI impI)
      fix i assume "i < Suc k"
      show "reprompts (ReadString w (n + i))"
      proof (cases i)
        case 0
        with True show ?thesis by simp
      next
        case (Suc j)
        with \<open>i < Suc k\<close> k(1) show ?thesis by simp
      qed
    qed
    moreover have "\<not> reprompts (ReadString w (n + Suc k))"
      using k(2) by simp
    ultimately show ?thesis by blast
  qed
qed

lemma confirm_loop_forever:
  assumes "\<forall>i. reprompts (ReadString w i)"
  shows "confirm_loop w prompt n out = None"
proof (cases "confirm_loop w prompt n out")
  case None
  then show ?thesis .
next
  case (Some y)
  from confirm_loop_Some_decides [OF this] assms show ?thesis by blast
qed

lemma not_reprompts_cases:
  assumes "\<not> reprompts r"
  obtains (error) err where "r = ReadError err"
  | (yes) response where "r = Line response" "ToLower (TrimSpace response) \<in> {''y'', ''yes''}"
  | (no) response where "r = Line response" "ToLower (TrimSpace response) \<in> {''n'', ''no''}"
  using assms by (cases r) (auto simp: reprompts_def)

text \<open>
  Every result of \<^verbatim>\<open>confirm\<close>: after \<open>k\<close> undecided rounds the read \<open>k\<close> decides, and the output
  is the old one, the \<open>k\<close> rounds, the prompt, and the warning when the read failed.
\<close>

lemma confirm_Some_cases:
  assumes "confirm w prompt out = Some (answer, out', n)"
  obtains k where "n = Suc k" "\<forall>i<k. reprompts (ReadString w i)" "\<not> reprompts (ReadString w k)"
    "(\<exists>err. ReadString w k = ReadError err \<and> \<not> answer \<and>
        out' = out @ reprompted prompt k @
          [Print (prompt @ '' [y/n]: ''), Print (''Error reading input: '' @ err)])
     \<or> (\<exists>response. ReadString w k = Line response \<and>
          answer = (ToLower (TrimSpace response) \<in> {''y'', ''yes''}) \<and>
          out' = out @ reprompted prompt k @ [Print (prompt @ '' [y/n]: '')])"
proof -
  from assms have some: "confirm_loop w prompt 0 out = Some (answer, out', n)"
    by (simp add: confirm_def)
  from confirm_loop_Some_decides [OF this] obtain k where
    k: "\<forall>i<k. reprompts (ReadString w i)" "\<not> reprompts (ReadString w k)"
    by auto
  have eq: "confirm_loop w prompt k (out @ reprompted prompt k) = Some (answer, out', n)"
    using confirm_loop_reprompts [of k w 0 prompt out] k(1) some by simp
  from k(2) show thesis
  proof (cases rule: not_reprompts_cases)
    case (error err)
    with eq confirm_loop_error [of w k err prompt "out @ reprompted prompt k"] k that [of k]
    show ?thesis by auto
  next
    case (yes response)
    with eq confirm_loop_yes [of w k response prompt "out @ reprompted prompt k"] k that [of k]
    show ?thesis by auto
  next
    case (no response)
    have "ToLower (TrimSpace response) \<notin> {''y'', ''yes''}"
      using no(2) by auto
    with no eq confirm_loop_no [of w k response prompt "out @ reprompted prompt k"] k that [of k]
    show ?thesis by auto
  qed
qed

section \<open>The branches of publishMetrics\<close>

lemma printTable_rendered:
  "Render w (build_table w data config) = None \<Longrightarrow>
   printTable w data config = (None, preview w data config)"
  by (simp add: printTable_def preview_def)

lemma printTable_failed:
  "Render w (build_table w data config) = Some err \<Longrightarrow>
   printTable w data config = (Some err, [Print ''Metrics to be published:''])"
  by (simp add: printTable_def)

lemma publishMetrics_render_failed:
  "Render w (build_table w data config) = Some err \<Longrightarrow>
   publishMetrics w data config =
     Some \<lparr>returned = Some err, stdout = [Print ''Metrics to be published:''], calls = [],
           reads = 0\<rparr>"
  by (simp add: publishMetrics_def printTable_failed)

lemma publishMetrics_skipped:
  "Render w (build_table w data config) = None \<Longrightarrow> SkipPublish config \<Longrightarrow>
   publishMetrics w data config =
     Some \<lparr>returned = None,
           stdout = preview w data config @
             [Print ''You have elected to not publish these metrics, exiting...''],
           calls = [], reads = 0\<rparr>"
  by (simp add: publishMetrics_def printTable_rendered)

lemma publishMetrics_approved:
  assumes "Render w (build_table w data config) = None" "\<not> SkipPublish config"
    and "proceed w (preview w data config) = Some (True, out, n)"
  shows "publishMetrics w data config =
     Some \<lparr>returned = PutMetricData w 0 (batch w data config),
           stdout = (case PutMetricData w 0 (batch w data config) of
                       Some err \<Rightarrow> out
                     | None \<Rightarrow> out @ [Print ''Metrics published successfully!'']),
           calls = [batch w data config], reads = n\<rparr>"
  using assms
  by (simp add: publishMetrics_def printTable_rendered batch_def Let_def split: option.splits)

lemma publishMetrics_declined:
  assumes "Render w (build_table w data config) = None" "\<not> SkipPublish config"
    and "proceed w (preview w data config) = Some (False, out, n)"
  shows "publishMetrics w data config =
     Some \<lparr>returned = None, stdout = out @ [Print ''Operation cancelled.''], calls = [],
           reads = n\<rparr>"
  using assms by (simp add: publishMetrics_def printTable_rendered Let_def)

lemma publishMetrics_unanswered:
  assumes "Render w (build_table w data config) = None" "\<not> SkipPublish config"
    and "proceed w (preview w data config) = None"
  shows "publishMetrics w data config = None"
  using assms by (simp add: publishMetrics_def printTable_rendered Let_def)

lemma success_not_reprompted:
  "Print ''Metrics published successfully!'' \<notin> set (reprompted ''Do you want to proceed?'' k)"
  by (induction k) (simp_all add: reprompted_def)

text \<open>The gate writes prompts, complaints and at most one warning: never the success message.\<close>

lemma proceed_no_success:
  assumes "proceed w out = Some (answer, out', n)"
    and "Print ''Metrics published successfully!'' \<notin> set out"
  shows "Print ''Metrics published successfully!'' \<notin> set out'"
proof (cases "cliNoninteractive w")
  case True
  with assms show ?thesis by (simp add: proceed_def)
next
  case False
  with assms have "confirm w ''Do you want to proceed?'' out = Some (answer, out', n)"
    by (simp add: proceed_def)
  then show ?thesis
  proof (cases rule: confirm_Some_cases)
    case (1 k)
    from 1(4) show ?thesis
    proof (elim disjE exE conjE)
      fix err
      assume "out' = out @ reprompted ''Do you want to proceed?'' k @
          [Print (''Do you want to proceed?'' @ '' [y/n]: ''), Print (''Error reading input: '' @ err)]"
      then show ?thesis
        using assms(2) success_not_reprompted [of k] by simp
    next
      fix response
      assume "out' = out @ reprompted ''Do you want to proceed?'' k @
          [Print (''Do you want to proceed?'' @ '' [y/n]: '')]"
      then show ?thesis
        using assms(2) success_not_reprompted [of k] by simp
    qed
  qed
qed

lemma success_not_preview:
  "Print ''Metrics published successfully!'' \<notin> set (preview w data config)"
  by (simp add: preview_def)

section \<open>The example run\<close>

lemma example_table:
  "build_table example_world example_data config =
     [table_header, table_row config (''a'', Float 1.25), table_row config (''b'', Float 2)]"
  by (simp add: build_table_rows range_map_def example_world_def example_data_def)

lemma example_rows:
  "table_row example_config (''a'', Float 1.25) = [Str ''A'', Sprint (Float 1.25), Str ''''] \<and>
   table_row example_config (''b'', Float 2) = [Str ''B'', Sprint (Float 2), Str ''Goal=Fitness '']"
  by (simp add: table_row_def index_MetricMappings_def example_config_def example_mappings_def
      dimensions_text_def rounded_examples)

lemma example_first_read: "reprompts (ReadString example_world 0)"
  by (simp add: example_world_def reprompts_def ToLower_def trim toLower_def)

lemma example_second_read:
  "ReadString example_world 1 = Line ('' yes '' @ [CHR 0x0A]) \<and>
   ToLower (TrimSpace ('' yes '' @ [CHR 0x0A])) \<in> {''y'', ''yes''}"
  by (simp add: example_world_def ToLower_def trim toLower_def)

lemma example_confirm:
  "confirm example_world prompt out =
     Some (True, out @ reprompted prompt 1 @ [Print (prompt @ '' [y/n]: '')], 2)"
proof -
  have "\<forall>i<1. reprompts (ReadString example_world (0 + i))"
    using example_first_read by simp
  from confirm_loop_reprompts [OF this, of prompt out]
  have "confirm_loop example_world prompt 0 out =
      confirm_loop example_world prompt 1 (out @ reprompted prompt 1)"
    by simp
  also have "\<dots> = Some (True, (out @ reprompted prompt 1) @ [Print (prompt @ '' [y/n]: '')], Suc 1)"
    using example_second_read by (intro confirm_loop_yes [of _ _ "'' yes '' @ [CHR 0x0A]"]) simp_all
  finally show ?thesis
    by (simp add: confirm_def)
qed

section \<open>Skip-publish\<close>

text \<open>
  C2. With skip-publish set, no call is made to the remote service and the confirmation
  gate is not entered: nothing is read and no prompt is written, whatever the
  non-interactive flag and the standard input hold. The table is rendered first; when it
  renders, the run writes the table, then the skip message, and returns no error.
\<close>

theorem skip_publish_bypasses_gate:
  assumes "SkipPublish config"
  shows "\<exists>r. publishMetrics w data config = Some r \<and> calls r = [] \<and> reads r = 0 \<and>
           Print ''Do you want to proceed? [y/n]: '' \<notin> set (stdout r) \<and>
           (Render w (build_table w data config) = None \<longrightarrow>
              returned r = None \<and>
              stdout r =
                [Print ''Metrics to be published:'', Table (build_table w data config),
                 Print ''You have elected to not publish these metrics, exiting...''])"
proof (cases "Render w (build_table w data config)")
  case None
  from publishMetrics_skipped [OF this assms] show ?thesis
    by (simp add: preview_def None)
next
  case (Some err)
  from publishMetrics_render_failed [OF this] show ?thesis
    by (simp add: Some)
qed

theorem skip_publish_bypasses_gate_witness:
  "SkipPublish (example_config\<lparr>SkipPublish := True\<rparr>) \<and>
   (\<exists>r. publishMetrics example_world example_data (example_config\<lparr>SkipPublish := True\<rparr>) = Some r \<and>
        calls r = [] \<and> reads r = 0 \<and> returned r = None \<and>
        stdout r =
          [Print ''Metrics to be published:'',
           Table [[Str ''Metric name'', Str ''Value'', Str ''Dimensions''],
                  [Str ''A'', Sprint (Float 1.25), Str ''''],
                  [Str ''B'', Sprint (Float 2), Str ''Goal=Fitness '']],
           Print ''You have elected to not publish these metrics, exiting...''])"
proof -
  have skip: "SkipPublish (example_config\<lparr>SkipPublish := True\<rparr>)"
    by simp
  have render: "Render example_world
      (build_table example_world example_data (example_config\<lparr>SkipPublish := True\<rparr>)) = None"
    by (simp add: example_world_def)
  have rows: "build_table example_world example_data (example_config\<lparr>SkipPublish := True\<rparr>) =
      [[Str ''Metric name'', Str ''Value'', Str ''Dimensions''],
       [Str ''A'', Sprint (Float 1.25), Str ''''],
       [Str ''B'', Sprint (Float 2), Str ''Goal=Fitness '']]"
    using example_rows
    by (simp add: example_table table_header_def table_row_def index_MetricMappings_def
        example_config_def)
  show ?thesis
    using skip_publish_bypasses_gate [OF skip, of example_world example_data] skip render rows
    by auto
qed

section \<open>The remote call\<close>

text \<open>
  C7. When publishing proceeds (skip-publish is off, the table has rendered, and the gate
  has answered yes, by the flag or by the user), the remote call is made exactly once, its
  input being the configured namespace with every assembled datum. The run returns what the
  call returned: when the call fails its error is the result and the success message is
  not written; when it succeeds the success message is the last thing written. No run at
  all makes more than one call.
\<close>

theorem publish_calls_once:
  assumes "\<not> SkipPublish config" "Render w (build_table w data config) = None"
    and "proceed w (preview w data config) = Some (True, out, n)"
  shows "(\<exists>r. publishMetrics w data config = Some r \<and>
            calls r = [\<lparr>Namespace = MetricNamespace config,
                        MetricData = build_metricData w data config\<rparr>] \<and>
            returned r = PutMetricData w 0 (batch w data config) \<and>
            (returned r \<noteq> None \<longrightarrow> Print ''Metrics published successfully!'' \<notin> set (stdout r)) \<and>
            (returned r = None \<longrightarrow> stdout r = out @ [Print ''Metrics published successfully!'']))
         \<and> (\<forall>w' data' config' r'. publishMetrics w' data' config' = Some r' \<longrightarrow> length (calls r') \<le> 1)"
proof
  have quiet: "Print ''Metrics published successfully!'' \<notin> set out"
    using proceed_no_success [OF assms(3) success_not_preview] .
  show "\<exists>r. publishMetrics w data config = Some r \<and>
            calls r = [\<lparr>Namespace = MetricNamespace config,
                        MetricData = build_metricData w data config\<rparr>] \<and>
            returned r = PutMetricData w 0 (batch w data config) \<and>
            (returned r \<noteq> None \<longrightarrow> Print ''Metrics published successfully!'' \<notin> set (stdout r)) \<and>
            (returned r = None \<longrightarrow> stdout r = out @ [Print ''Metrics published successfully!''])"
    using publishMetrics_approved [OF assms(2) assms(1) assms(3)] quiet
    by (cases "PutMetricData w 0 (batch w data config)") (simp_all add: batch_def)
next
  show "\<forall>w' data' config' r'. publishMetrics w' data' config' = Some r' \<longrightarrow> length (calls r') \<le> 1"
  proof (intro allI impI)
    fix w' data' config' r'
    assume run: "publishMetrics w' data' config' = Some r'"
    show "length (calls r') \<le> 1"
    proof (cases "Render w' (build_table w' data' config')")
      case (Some err)
      from publishMetrics_render_failed [OF this] run show ?thesis by auto
    next
      case None
      show ?thesis
      proof (cases "SkipPublish config'")
        case True
        from publishMetrics_skipped [OF None this] run show ?thesis by auto
      next
        case False
        show ?thesis
        proof (cases "proceed w' (preview w' data' config')")
          case None': None
          from publishMetrics_unanswered [OF None False this] run show ?thesis by simp
        next
          case (Some answer)
          obtain b out' n' where answer: "answer = (b, out', n')"
            by (cases answer) auto
          show ?thesis
          proof (cases b)
            case True
            from publishMetrics_approved [OF None False] Some answer True run show ?thesis by auto
          next
            case False': False
            from publishMetrics_declined [OF None False] Some answer False' run show ?thesis by auto
          qed
        qed
      qed
    qed
  qed
qed

lemma example_proceed:
  "proceed example_world out =
     Some (True, out @ reprompted ''Do you want to proceed?'' 1 @
                 [Print ''Do you want to proceed? [y/n]: ''], 2)"
  using example_confirm [of "''Do you want to proceed?''" out]
  by (simp add: proceed_def example_world_def)

theorem publish_calls_once_witness:
  "\<not> SkipPublish example_config \<and>
   Render example_world (build_table example_world example_data example_config) = None \<and>
   proceed example_world (preview example_world example_data example_config) =
     Some (True, preview example_world example_data example_config @
                 reprompted ''Do you want to proceed?'' 1 @
                 [Print ''Do you want to proceed? [y/n]: ''], 2) \<and>
   (\<exists>r. publishMetrics example_world example_data example_config = Some r \<and>
        calls r = [\<lparr>Namespace = ''Personal/Performance'',
                    MetricData = build_metricData example_world example_data example_config\<rparr>] \<and>
        returned r = None \<and>
        stdout r = preview example_world example_data example_config @
                 reprompted ''Do you want to proceed?'' 1 @
                 [Print ''Do you want to proceed? [y/n]: '', Print ''Metrics published successfully!'']) \<and>
   (\<exists>r. publishMetrics
          (example_world\<lparr>cliNoninteractive := True,
             PutMetricData := \<lambda>n input. Some ''AccessDenied''\<rparr>)
          example_data example_config = Some r \<and>
        length (calls r) = 1 \<and> returned r = Some ''AccessDenied'' \<and>
        Print ''Metrics published successfully!'' \<notin> set (stdout r))"
proof -
  let ?denied = "example_world\<lparr>cliNoninteractive := True,
      PutMetricData := \<lambda>n input. Some ''AccessDenied''\<rparr>"
  have skip: "\<not> SkipPublish example_config"
    by (simp add: example_config_def)
  have render: "Render example_world (build_table example_world example_data example_config) = None"
    "Render ?denied (build_table ?denied example_data example_config) = None"
    by (simp_all add: example_world_def)
  have service: "PutMetricData example_world 0 (batch example_world example_data example_config) = None"
    "PutMetricData ?denied 0 (batch ?denied example_data example_config) = Some ''AccessDenied''"
    by (simp_all add: example_world_def)
  have namespace: "MetricNamespace example_config = ''Personal/Performance''"
    by (simp add: example_config_def)
  have flag: "proceed ?denied (preview ?denied example_data example_config) =
      Some (True, preview ?denied example_data example_config, 0)"
    by (simp add: proceed_def)
  have accepted: "\<exists>r. publishMetrics example_world example_data example_config = Some r \<and>
        calls r = [\<lparr>Namespace = ''Personal/Performance'',
                    MetricData = build_metricData example_world example_data example_config\<rparr>] \<and>
        returned r = None \<and>
        stdout r = preview example_world example_data example_config @
                 reprompted ''Do you want to proceed?'' 1 @
                 [Print ''Do you want to proceed? [y/n]: '', Print ''Metrics published successfully!'']"
    using publish_calls_once [OF skip render(1) example_proceed, THEN conjunct1] service(1) namespace
    by auto
  have denied: "\<exists>r. publishMetrics ?denied example_data example_config = Some r \<and>
        length (calls r) = 1 \<and> returned r = Some ''AccessDenied'' \<and>
        Print ''Metrics published successfully!'' \<notin> set (stdout r)"
    using publish_calls_once [OF skip render(2) flag, THEN conjunct1] service(2)
    by auto
  show ?thesis
    using skip render(1) example_proceed accepted denied by simp
qed

text \<open>
  C10. When no observed key has a mapping (the empty data set included), skip-publish is off,
  the table has rendered and the run is non-interactive or confirmed, the remote call is still
  made, once, with an empty list of metric data under the configured namespace.
\<close>

theorem empty_batch_still_sent:
  assumes "dom data \<inter> dom (MetricMappings config) = {}"
    and "\<not> SkipPublish config" "Render w (build_table w data config) = None"
    and "cliNoninteractive w \<or>
         (\<exists>out n. confirm w ''Do you want to proceed?'' (preview w data config) = Some (True, out, n))"
  shows "\<exists>r. publishMetrics w data config = Some r \<and>
           calls r = [\<lparr>Namespace = MetricNamespace config, MetricData = []\<rparr>] \<and>
           returned r = PutMetricData w 0 \<lparr>Namespace = MetricNamespace config, MetricData = []\<rparr>"
proof -
  have empty: "batch w data config = \<lparr>Namespace = MetricNamespace config, MetricData = []\<rparr>"
    by (simp add: batch_def build_metricData_unmapped [OF assms(1)])
  from assms(4) obtain out n where "proceed w (preview w data config) = Some (True, out, n)"
    by (cases "cliNoninteractive w") (auto simp: proceed_def)
  from publishMetrics_approved [OF assms(3) assms(2) this] empty show ?thesis
    by simp
qed

theorem empty_batch_still_sent_witness:
  "dom (Map.empty :: PerformanceData) \<inter> dom (MetricMappings example_config) = {} \<and>
   dom [''x'' \<mapsto> Float 3] \<inter> dom (MetricMappings example_config) = {} \<and>
   \<not> SkipPublish example_config \<and>
   cliNoninteractive (example_world\<lparr>cliNoninteractive := True\<rparr>) \<and>
   (\<exists>r. publishMetrics (example_world\<lparr>cliNoninteractive := True\<rparr>) Map.empty example_config = Some r \<and>
        calls r = [\<lparr>Namespace = ''Personal/Performance'', MetricData = []\<rparr>] \<and> returned r = None) \<and>
   (\<exists>r. publishMetrics example_world [''x'' \<mapsto> Float 3] example_config = Some r \<and>
        calls r = [\<lparr>Namespace = ''Personal/Performance'', MetricData = []\<rparr>] \<and> returned r = None)"
proof -
  have none: "dom (Map.empty :: PerformanceData) \<inter> dom (MetricMappings example_config) = {}"
    by simp
  have other: "dom [''x'' \<mapsto> Float 3] \<inter> dom (MetricMappings example_config) = {}"
    by (simp add: example_config_def example_mappings_def)
  have skip: "\<not> SkipPublish example_config"
    by (simp add: example_config_def)
  have flag: "cliNoninteractive (example_world\<lparr>cliNoninteractive := True\<rparr>)"
    by simp
  have render: "Render (example_world\<lparr>cliNoninteractive := True\<rparr>) t = None"
    "Render example_world t = None" for t
    by (simp_all add: example_world_def)
  have service: "PutMetricData (example_world\<lparr>cliNoninteractive := True\<rparr>) 0 i = None"
    "PutMetricData example_world 0 i = None" for i
    by (simp_all add: example_world_def)
  have namespace: "MetricNamespace example_config = ''Personal/Performance''"
    by (simp add: example_config_def)
  have yes: "cliNoninteractive example_world \<or>
      (\<exists>out n. confirm example_world ''Do you want to proceed?''
          (preview example_world [''x'' \<mapsto> Float 3] example_config) = Some (True, out, n))"
    by (simp add: example_confirm)
  show ?thesis
    using empty_batch_still_sent [OF none skip render(1) disjI1 [OF flag]]
      empty_batch_still_sent [OF other skip render(2) yes]
      none other skip flag service namespace
    by simp
qed

section \<open>The confirmation gate\<close>

text \<open>
  C6. In an interactive run that is not skipped and whose table has rendered, a read that fails
  (after any number of undecided answers) makes the gate answer no: the warning with the read
  error is written, then the cancellation message; no call is made and no error is returned.
\<close>

theorem read_failure_declines:
  assumes "\<not> SkipPublish config" "Render w (build_table w data config) = None"
    and "\<not> cliNoninteractive w"
    and "\<forall>i<k. reprompts (ReadString w i)" "ReadString w k = ReadError err"
  shows "publishMetrics w data config =
     Some \<lparr>returned = None,
           stdout = preview w data config @ reprompted ''Do you want to proceed?'' k @
             [Print ''Do you want to proceed? [y/n]: '', Print (''Error reading input: '' @ err),
              Print ''Operation cancelled.''],
           calls = [], reads = Suc k\<rparr>"
proof -
  have "confirm_loop w ''Do you want to proceed?'' 0 (preview w data config) =
      confirm_loop w ''Do you want to proceed?'' k
        (preview w data config @ reprompted ''Do you want to proceed?'' k)"
    using confirm_loop_reprompts [of k w 0] assms(4) by simp
  also have "\<dots> = Some (False,
      (preview w data config @ reprompted ''Do you want to proceed?'' k) @
        [Print (''Do you want to proceed?'' @ '' [y/n]: ''), Print (''Error reading input: '' @ err)],
      Suc k)"
    by (rule confirm_loop_error [OF assms(5)])
  finally have "proceed w (preview w data config) = Some (False,
      (preview w data config @ reprompted ''Do you want to proceed?'' k) @
        [Print (''Do you want to proceed?'' @ '' [y/n]: ''), Print (''Error reading input: '' @ err)],
      Suc k)"
    using assms(3) by (simp add: proceed_def confirm_def)
  from publishMetrics_declined [OF assms(2) assms(1) this] show ?thesis
    by simp
qed

theorem read_failure_declines_witness:
  "\<not> SkipPublish example_config \<and>
   \<not> cliNoninteractive (example_world\<lparr>ReadString := \<lambda>n. if n = 0 then Line (''maybe'' @ [CHR 0x0A]) else ReadError ''EOF''\<rparr>) \<and>
   reprompts (ReadString (example_world\<lparr>ReadString := \<lambda>n. if n = 0 then Line (''maybe'' @ [CHR 0x0A]) else ReadError ''EOF''\<rparr>) 0) \<and>
   publishMetrics (example_world\<lparr>ReadString := \<lambda>n. if n = 0 then Line (''maybe'' @ [CHR 0x0A]) else ReadError ''EOF''\<rparr>)
       example_data example_config =
     Some \<lparr>returned = None,
           stdout = [Print ''Metrics to be published:'',
                     Table [[Str ''Metric name'', Str ''Value'', Str ''Dimensions''],
                            [Str ''A'', Sprint (Float 1.25), Str ''''],
                            [Str ''B'', Sprint (Float 2), Str ''Goal=Fitness '']],
                     Print ''Do you want to proceed? [y/n]: '',
                     Print ''Invalid input. Please enter 'y' or 'n'.'',
                     Print ''Do you want to proceed? [y/n]: '',
                     Print ''Error reading input: EOF'',
                     Print ''Operation cancelled.''],
           calls = [], reads = 2\<rparr>"
proof -
  let ?w = "example_world\<lparr>ReadString := \<lambda>n. if n = 0 then Line (''maybe'' @ [CHR 0x0A]) else ReadError ''EOF''\<rparr>"
  have skip: "\<not> SkipPublish example_config"
    by (simp add: example_config_def)
  have render: "Render ?w (build_table ?w example_data example_config) = None"
    by (simp add: example_world_def)
  have flag: "\<not> cliNoninteractive ?w"
    by (simp add: example_world_def)
  have undecided: "\<forall>i<1. reprompts (ReadString ?w i)"
    by (simp add: reprompts_def ToLower_def trim toLower_def)
  have closed: "ReadString ?w 1 = ReadError ''EOF''"
    by simp
  have table: "build_table ?w example_data example_config =
      [[Str ''Metric name'', Str ''Value'', Str ''Dimensions''],
       [Str ''A'', Sprint (Float 1.25), Str ''''],
       [Str ''B'', Sprint (Float 2), Str ''Goal=Fitness '']]"
    using example_rows
    by (simp add: build_table_rows range_map_def example_world_def example_data_def table_header_def)
  show ?thesis
    using read_failure_declines [OF skip render flag undecided closed] skip flag undecided table
    by (simp add: preview_def reprompted_def)
qed

text \<open>
  C5. In a non-interactive run the gate answers yes at once: \<^verbatim>\<open>confirm\<close> is not called, so
  nothing is read and nothing is written. Otherwise the answer is that of \<^verbatim>\<open>confirm\<close>: after
  any number \<open>k\<close> of undecided lines, a line that trims and lower-cases to \<^verbatim>\<open>y\<close> or \<^verbatim>\<open>yes\<close>
  answers yes and one that gives \<^verbatim>\<open>n\<close> or \<^verbatim>\<open>no\<close> answers no, each after \<open>k + 1\<close> reads and
  \<open>k\<close> complaints; there is no bound on \<open>k\<close>. A line that is none of the four (such as
  \<^verbatim>\<open>maybe\<close>) decides nothing and the loop prompts again; on an input of such lines only,
  \<^verbatim>\<open>confirm\<close> never returns. The lines \<^verbatim>\<open>Y\<close>, \<^verbatim>\<open>yes\<close> between spaces, \<^verbatim>\<open>n\<close> and \<^verbatim>\<open>NO\<close>, as
  read with their line feed, give \<^verbatim>\<open>y\<close>, \<^verbatim>\<open>yes\<close>, \<^verbatim>\<open>n\<close> and \<^verbatim>\<open>no\<close>. The white space trimmed is
  that of Unicode: \<^verbatim>\<open>yes\<close> followed by a no-break space (the bytes C2 A0) and \<^verbatim>\<open>NO\<close> between
  ideographic spaces (the bytes E3 80 80) give \<^verbatim>\<open>yes\<close> and \<^verbatim>\<open>no\<close>, while a zero width space (the
  bytes E2 80 8B), which is no white space, is kept and the line decides nothing.
\<close>

theorem confirmation_gate:
  "(cliNoninteractive w \<longrightarrow> proceed w out = Some (True, out, 0)) \<and>
   (\<not> cliNoninteractive w \<longrightarrow> proceed w out = confirm w ''Do you want to proceed?'' out) \<and>
   ((\<forall>i<k. reprompts (ReadString w i)) \<and> ReadString w k = Line response \<and>
      ToLower (TrimSpace response) \<in> {''y'', ''yes''} \<longrightarrow>
      confirm w prompt out =
        Some (True, out @ reprompted prompt k @ [Print (prompt @ '' [y/n]: '')], Suc k)) \<and>
   ((\<forall>i<k. reprompts (ReadString w i)) \<and> ReadString w k = Line response \<and>
      ToLower (TrimSpace response) \<in> {''n'', ''no''} \<longrightarrow>
      confirm w prompt out =
        Some (False, out @ reprompted prompt k @ [Print (prompt @ '' [y/n]: '')], Suc k)) \<and>
   (ReadString w 0 = Line response \<and> ToLower (TrimSpace response) \<notin> {''y'', ''yes'', ''n'', ''no''} \<longrightarrow>
      confirm w prompt out =
        confirm_loop w prompt 1
          (out @ [Print (prompt @ '' [y/n]: ''), Print ''Invalid input. Please enter 'y' or 'n'.''])) \<and>
   ((\<forall>i. reprompts (ReadString w i)) \<longrightarrow> confirm w prompt out = None) \<and>
   ToLower (TrimSpace (''Y'' @ [CHR 0x0A])) = ''y'' \<and> ToLower (TrimSpace ('' yes '' @ [CHR 0x0A])) = ''yes'' \<and>
   ToLower (TrimSpace (''n'' @ [CHR 0x0A])) = ''n'' \<and> ToLower (TrimSpace (''NO'' @ [CHR 0x0A])) = ''no'' \<and>
   reprompts (Line (''maybe'' @ [CHR 0x0A])) \<and>
   ToLower (TrimSpace (''yes'' @ [CHR 0xC2, CHR 0xA0, CHR 0x0A])) = ''yes'' \<and>
   ToLower (TrimSpace ([CHR 0xE3, CHR 0x80, CHR 0x80] @ ''NO'' @
     [CHR 0xE3, CHR 0x80, CHR 0x80, CHR 0x0D, CHR 0x0A])) = ''no'' \<and>
   reprompts (Line (''yes'' @ [CHR 0xE2, CHR 0x80, CHR 0x8B, CHR 0x0A]))"
proof (intro conjI impI)
  assume "cliNoninteractive w"
  then show "proceed w out = Some (True, out, 0)"
    by (simp add: proceed_def)
next
  assume "\<not> cliNoninteractive w"
  then show "proceed w out = confirm w ''Do you want to proceed?'' out"
    by (simp add: proceed_def)
next
  assume h: "(\<forall>i<k. reprompts (ReadString w i)) \<and> ReadString w k = Line response \<and>
      ToLower (TrimSpace response) \<in> {''y'', ''yes''}"
  have "confirm_loop w prompt 0 out = confirm_loop w prompt k (out @ reprompted prompt k)"
    using confirm_loop_reprompts [of k w 0] h by simp
  also have "\<dots> = Some (True, (out @ reprompted prompt k) @ [Print (prompt @ '' [y/n]: '')], Suc k)"
    using h by (intro confirm_loop_yes [of w k response]) simp_all
  finally show "confirm w prompt out =
      Some (True, out @ reprompted prompt k @ [Print (prompt @ '' [y/n]: '')], Suc k)"
    by (simp add: confirm_def)
next
  assume h: "(\<forall>i<k. reprompts (ReadString w i)) \<and> ReadString w k = Line response \<and>
      ToLower (TrimSpace response) \<in> {''n'', ''no''}"
  have "confirm_loop w prompt 0 out = confirm_loop w prompt k (out @ reprompted prompt k)"
    using confirm_loop_reprompts [of k w 0] h by simp
  also have "\<dots> = Some (False, (out @ reprompted prompt k) @ [Print (prompt @ '' [y/n]: '')], Suc k)"
    using h by (intro confirm_loop_no [of w k response]) simp_all
  finally show "confirm w prompt out =
      Some (False, out @ reprompted prompt k @ [Print (prompt @ '' [y/n]: '')], Suc k)"
    by (simp add: confirm_def)
next
  assume h: "ReadString w 0 = Line response \<and>
      ToLower (TrimSpace response) \<notin> {''y'', ''yes'', ''n'', ''no''}"
  then have "reprompts (ReadString w 0)"
    by (simp add: reprompts_def)
  from confirm_loop_reprompt [OF this, of prompt out]
  show "confirm w prompt out =
      confirm_loop w prompt 1
        (out @ [Print (prompt @ '' [y/n]: ''), Print ''Invalid input. Please enter 'y' or 'n'.''])"
    by (simp add: confirm_def)
next
  assume "\<forall>i. reprompts (ReadString w i)"
  then show "confirm w prompt out = None"
    by (simp add: confirm_def confirm_loop_forever)
next
  show "ToLower (TrimSpace (''Y'' @ [CHR 0x0A])) = ''y''"
    by (simp add: ToLower_def trim toLower_def)
next
  show "ToLower (TrimSpace ('' yes '' @ [CHR 0x0A])) = ''yes''"
    by (simp add: ToLower_def trim toLower_def)
next
  show "ToLower (TrimSpace (''n'' @ [CHR 0x0A])) = ''n''"
    by (simp add: ToLower_def trim toLower_def)
next
  show "ToLower (TrimSpace (''NO'' @ [CHR 0x0A])) = ''no''"
    by (simp add: ToLower_def trim toLower_def)
next
  show "reprompts (Line (''maybe'' @ [CHR 0x0A]))"
    by (simp add: reprompts_def ToLower_def trim toLower_def)
next
  show "ToLower (TrimSpace (''yes'' @ [CHR 0xC2, CHR 0xA0, CHR 0x0A])) = ''yes''"
    by (simp add: ToLower_def trim toLower_def)
next
  show "ToLower (TrimSpace ([CHR 0xE3, CHR 0x80, CHR 0x80] @ ''NO'' @
      [CHR 0xE3, CHR 0x80, CHR 0x80, CHR 0x0D, CHR 0x0A])) = ''no''"
    by (simp add: ToLower_def trim toLower_def)
next
  show "reprompts (Line (''yes'' @ [CHR 0xE2, CHR 0x80, CHR 0x8B, CHR 0x0A]))"
    by (simp add: reprompts_def ToLower_def trim toLower_def)
qed

theorem confirmation_gate_witness:
  "cliNoninteractive (example_world\<lparr>cliNoninteractive := True\<rparr>) \<and>
   proceed (example_world\<lparr>cliNoninteractive := True\<rparr>) [] = Some (True, [], 0) \<and>
   \<not> cliNoninteractive example_world \<and>
   proceed example_world [] =
     Some (True, [Print ''Do you want to proceed? [y/n]: '',
                  Print ''Invalid input. Please enter 'y' or 'n'.'',
                  Print ''Do you want to proceed? [y/n]: ''], 2) \<and>
   confirm (example_world\<lparr>ReadString := \<lambda>n. Line (''NO'' @ [CHR 0x0A])\<rparr>) ''Do you want to proceed?'' [] =
     Some (False, [Print ''Do you want to proceed? [y/n]: ''], 1) \<and>
   confirm (example_world\<lparr>ReadString := \<lambda>n. Line (''maybe'' @ [CHR 0x0A])\<rparr>) ''Do you want to proceed?'' [] = None \<and>
   confirm (example_world\<lparr>ReadString := \<lambda>n. Line (''yes'' @ [CHR 0xC2, CHR 0xA0, CHR 0x0A])\<rparr>)
       ''Do you want to proceed?'' [] =
     Some (True, [Print ''Do you want to proceed? [y/n]: ''], 1) \<and>
   confirm example_world ''Do you want to proceed?'' [] =
     confirm_loop example_world ''Do you want to proceed?'' 1
       [Print ''Do you want to proceed? [y/n]: '', Print ''Invalid input. Please enter 'y' or 'n'.'']"
proof -
  let ?flag = "example_world\<lparr>cliNoninteractive := True\<rparr>"
  let ?no = "example_world\<lparr>ReadString := \<lambda>n. Line (''NO'' @ [CHR 0x0A])\<rparr>"
  let ?maybe = "example_world\<lparr>ReadString := \<lambda>n. Line (''maybe'' @ [CHR 0x0A])\<rparr>"
  let ?nbsp = "example_world\<lparr>ReadString := \<lambda>n. Line (''yes'' @ [CHR 0xC2, CHR 0xA0, CHR 0x0A])\<rparr>"
  let ?prompt = "''Do you want to proceed?''"
  have flag: "cliNoninteractive ?flag"
    by simp
  have asked: "\<not> cliNoninteractive example_world"
    by (simp add: example_world_def)
  have first: "\<forall>i<1. reprompts (ReadString example_world i)"
    using example_first_read by simp
  have none: "\<forall>i<0. reprompts (ReadString ?no i)"
    by simp
  have no: "ReadString ?no 0 = Line (''NO'' @ [CHR 0x0A]) \<and>
      ToLower (TrimSpace (''NO'' @ [CHR 0x0A])) \<in> {''n'', ''no''}"
    by (simp add: ToLower_def trim toLower_def)
  have maybe: "\<forall>i. reprompts (ReadString ?maybe i)"
    by (simp add: reprompts_def ToLower_def trim toLower_def)
  have a: "proceed ?flag [] = Some (True, [], 0)"
    using confirmation_gate [of ?flag "[]"] flag by blast
  have b: "proceed example_world [] = confirm example_world ?prompt []"
    using confirmation_gate [of example_world "[]"] asked by blast
  have c: "confirm example_world ?prompt [] =
      Some (True, [] @ reprompted ?prompt 1 @ [Print (?prompt @ '' [y/n]: '')], Suc 1)"
    using confirmation_gate [of example_world "[]" 1 "'' yes '' @ [CHR 0x0A]" ?prompt]
      first example_second_read by blast
  have d: "confirm ?no ?prompt [] =
      Some (False, [] @ reprompted ?prompt 0 @ [Print (?prompt @ '' [y/n]: '')], Suc 0)"
    using confirmation_gate [of ?no "[]" 0 "''NO'' @ [CHR 0x0A]" ?prompt] none no by blast
  have e: "confirm ?maybe ?prompt [] = None"
    using confirmation_gate [of ?maybe "[]" _ _ ?prompt] maybe by blast
  have at_once: "\<forall>i<0. reprompts (ReadString ?nbsp i)"
    by simp
  have yes: "ReadString ?nbsp 0 = Line (''yes'' @ [CHR 0xC2, CHR 0xA0, CHR 0x0A]) \<and>
      ToLower (TrimSpace (''yes'' @ [CHR 0xC2, CHR 0xA0, CHR 0x0A])) \<in> {''y'', ''yes''}"
    by (simp add: ToLower_def trim toLower_def)
  have h: "confirm ?nbsp ?prompt [] =
      Some (True, [] @ reprompted ?prompt 0 @ [Print (?prompt @ '' [y/n]: '')], Suc 0)"
    using confirmation_gate [of ?nbsp "[]" 0 "''yes'' @ [CHR 0xC2, CHR 0xA0, CHR 0x0A]" ?prompt]
      at_once yes by blast
  have undecided: "ReadString example_world 0 = Line (''maybe'' @ [CHR 0x0A]) \<and>
      ToLower (TrimSpace (''maybe'' @ [CHR 0x0A])) \<notin> {''y'', ''yes'', ''n'', ''no''}"
    by (simp add: example_world_def ToLower_def trim toLower_def)
  have f: "confirm example_world ?prompt [] =
      confirm_loop example_world ?prompt 1
        ([] @ [Print (?prompt @ '' [y/n]: ''), Print ''Invalid input. Please enter 'y' or 'n'.''])"
    using confirmation_gate [of example_world "[]" _ "''maybe'' @ [CHR 0x0A]" ?prompt] undecided
    by blast
  have g: "proceed example_world [] =
     Some (True, [Print ''Do you want to proceed? [y/n]: '',
                  Print ''Invalid input. Please enter 'y' or 'n'.'',
                  Print ''Do you want to proceed? [y/n]: ''], 2)"
    using b c by (simp add: reprompted_def)
  show ?thesis
    using a d e f g h flag asked by (simp add: reprompted_def)
qed

section \<open>Assembly\<close>

lemma build_metricData_by_key:
  assumes "traversal data (range_publishMetrics w)"
  shows "map record_of (build_metricData w data config) =
     map (\<lambda>k. (mm_Name (the (MetricMappings config k)),
               fdiv (Round (fmul (the (data k)) 100)) 100,
               append_Dimensions w (mm_Dimensions (the (MetricMappings config k)))))
       (filter (\<lambda>k. k \<in> dom (MetricMappings config)) (range_publishMetrics w))"
proof -
  have "set (range_publishMetrics w) \<subseteq> dom data"
    using assms by (simp add: traversal_def)
  from filter_mapped_range_map [OF this, of "dom (MetricMappings config)"] show ?thesis
    by (simp add: build_metricData_records comp_def)
qed

text \<open>
  C1. The published batch holds one datum for each observed key that has a mapping, in the
  order the loop visits the keys, and none for any other key: its length is the number of
  keys present in both the data set and the mappings. A key without a mapping leaves the
  batch as it was and the loop goes on; when publishing proceeds, the result of the run is
  that of the remote call, whatever keys were skipped.
\<close>

theorem unmapped_keys_are_dropped:
  assumes "traversal data (range_publishMetrics w)"
  shows "map record_of (build_metricData w data config) =
           map (\<lambda>k. (mm_Name (the (MetricMappings config k)),
                     fdiv (Round (fmul (the (data k)) 100)) 100,
                     append_Dimensions w (mm_Dimensions (the (MetricMappings config k)))))
             (filter (\<lambda>k. k \<in> dom (MetricMappings config)) (range_publishMetrics w)) \<and>
         length (build_metricData w data config) = card (dom data \<inter> dom (MetricMappings config)) \<and>
         (\<forall>key value metricData. MetricMappings config key = None \<longrightarrow>
            append_MetricDatum w config metricData (key, value) = metricData) \<and>
         (\<not> SkipPublish config \<and> Render w (build_table w data config) = None \<and>
          proceed w (preview w data config) = Some (True, out, n) \<longrightarrow>
            (\<exists>r. publishMetrics w data config = Some r \<and>
                 map MetricData (calls r) = [build_metricData w data config] \<and>
                 returned r = PutMetricData w 0 (batch w data config)))"
proof (intro conjI allI impI)
  show "map record_of (build_metricData w data config) =
           map (\<lambda>k. (mm_Name (the (MetricMappings config k)),
                     fdiv (Round (fmul (the (data k)) 100)) 100,
                     append_Dimensions w (mm_Dimensions (the (MetricMappings config k)))))
             (filter (\<lambda>k. k \<in> dom (MetricMappings config)) (range_publishMetrics w))"
    by (rule build_metricData_by_key [OF assms])
next
  have "length (build_metricData w data config) =
      length (map record_of (build_metricData w data config))"
    by simp
  also have "\<dots> = length (filter (\<lambda>k. k \<in> dom (MetricMappings config)) (range_publishMetrics w))"
    by (simp only: build_metricData_by_key [OF assms] length_map)
  also have "\<dots> = card (dom data \<inter> dom (MetricMappings config))"
    by (rule length_filter_traversal [OF assms])
  finally show "length (build_metricData w data config) =
      card (dom data \<inter> dom (MetricMappings config))" .
next
  fix key :: string and v :: float64 and md :: "MetricDatum list"
  assume "MetricMappings config key = None"
  then show "append_MetricDatum w config md (key, v) = md"
    by (simp add: append_MetricDatum_unmapped)
next
  assume "\<not> SkipPublish config \<and> Render w (build_table w data config) = None \<and>
          proceed w (preview w data config) = Some (True, out, n)"
  then have "publishMetrics w data config =
     Some \<lparr>returned = PutMetricData w 0 (batch w data config),
           stdout = (case PutMetricData w 0 (batch w data config) of
                       Some err \<Rightarrow> out
                     | None \<Rightarrow> out @ [Print ''Metrics published successfully!'']),
           calls = [batch w data config], reads = n\<rparr>"
    by (intro publishMetrics_approved) simp_all
  then show "\<exists>r. publishMetrics w data config = Some r \<and>
                 map MetricData (calls r) = [build_metricData w data config] \<and>
                 returned r = PutMetricData w 0 (batch w data config)"
    by (simp add: batch_def)
qed

theorem unmapped_keys_are_dropped_witness:
  "traversal [''a'' \<mapsto> Float 1.25, ''b'' \<mapsto> Float 2, ''c'' \<mapsto> Float 7]
     (range_publishMetrics (example_world\<lparr>range_publishMetrics := [''c'', ''b'', ''a''],
        cliNoninteractive := True\<rparr>)) \<and>
   map record_of
     (build_metricData (example_world\<lparr>range_publishMetrics := [''c'', ''b'', ''a''],
        cliNoninteractive := True\<rparr>)
        [''a'' \<mapsto> Float 1.25, ''b'' \<mapsto> Float 2, ''c'' \<mapsto> Float 7] example_config) =
     [(''B'', Float 2, [\<lparr>Name = ''Goal'', Value = ''Fitness''\<rparr>]), (''A'', Float 1.25, [])] \<and>
   length
     (build_metricData (example_world\<lparr>range_publishMetrics := [''c'', ''b'', ''a''],
        cliNoninteractive := True\<rparr>)
        [''a'' \<mapsto> Float 1.25, ''b'' \<mapsto> Float 2, ''c'' \<mapsto> Float 7] example_config) = 2 \<and>
   append_MetricDatum (example_world\<lparr>range_publishMetrics := [''c'', ''b'', ''a''],
        cliNoninteractive := True\<rparr>) example_config [] (''c'', Float 7) = [] \<and>
   (\<exists>r. publishMetrics (example_world\<lparr>range_publishMetrics := [''c'', ''b'', ''a''],
        cliNoninteractive := True\<rparr>)
        [''a'' \<mapsto> Float 1.25, ''b'' \<mapsto> Float 2, ''c'' \<mapsto> Float 7] example_config = Some r \<and>
        returned r = None \<and> length (calls r) = 1)"
proof -
  let ?w = "example_world\<lparr>range_publishMetrics := [''c'', ''b'', ''a''], cliNoninteractive := True\<rparr>"
  let ?data = "[''a'' \<mapsto> Float 1.25, ''b'' \<mapsto> Float 2, ''c'' \<mapsto> Float 7]"
  have order: "traversal ?data (range_publishMetrics ?w)"
    by (auto simp: traversal_def)
  have unmapped: "MetricMappings example_config ''c'' = None"
    by (simp add: example_config_def example_mappings_def)
  have run: "\<not> SkipPublish example_config \<and> Render ?w (build_table ?w ?data example_config) = None \<and>
      proceed ?w (preview ?w ?data example_config) = Some (True, preview ?w ?data example_config, 0)"
    by (simp add: example_config_def example_world_def proceed_def)
  have service: "PutMetricData ?w 0 i = None" for i
    by (simp add: example_world_def)
  have card: "card (dom ?data \<inter> dom (MetricMappings example_config)) = 2"
    by (simp add: example_config_def example_mappings_def)
  have dims: "append_Dimensions ?w ds = map to_Dimension ds" for ds
    by (simp add: append_Dimensions_def example_world_def)
  note inst = unmapped_keys_are_dropped [OF order, of example_config "preview ?w ?data example_config" 0]
  have a: "map record_of (build_metricData ?w ?data example_config) =
      [(''B'', Float 2, [\<lparr>Name = ''Goal'', Value = ''Fitness''\<rparr>]), (''A'', Float 1.25, [])]"
    using inst [THEN conjunct1]
    by (simp add: example_config_def example_mappings_def rounded_examples dims to_Dimension_def)
  have b: "length (build_metricData ?w ?data example_config) = 2"
    using inst [THEN conjunct2, THEN conjunct1] card by simp
  have c: "append_MetricDatum ?w example_config [] (''c'', Float 7) = []"
    using inst [THEN conjunct2, THEN conjunct2, THEN conjunct1] unmapped by simp
  have d: "\<exists>r. publishMetrics ?w ?data example_config = Some r \<and>
        returned r = None \<and> length (calls r) = 1"
  proof -
    from inst [THEN conjunct2, THEN conjunct2, THEN conjunct2, THEN mp, OF run] obtain r where
      r: "publishMetrics ?w ?data example_config = Some r"
      "map MetricData (calls r) = [build_metricData ?w ?data example_config]"
      "returned r = PutMetricData ?w 0 (batch ?w ?data example_config)"
      by auto
    from r(2) have "length (map MetricData (calls r)) = 1"
      by simp
    with r(1) r(3) service show ?thesis
      by simp
  qed
  show ?thesis
    using order a b c d by simp
qed

lemma two_key_traversals:
  assumes "distinct ks" "set ks = {x, y}" "x \<noteq> y"
  shows "ks = [x, y] \<or> ks = [y, x]"
proof -
  have "length ks = 2"
    using distinct_card [OF assms(1)] assms(2) assms(3) by simp
  then obtain p q where ks: "ks = [p, q]"
    by (auto simp: length_Suc_conv numeral_2_eq_2)
  with assms(2) have "{p, q} = {x, y}"
    by simp
  then show ?thesis
    using ks by (auto simp: doubleton_eq_iff)
qed

lemma example_traversals:
  assumes "traversal example_data ks"
  shows "ks = [''a'', ''b''] \<or> ks = [''b'', ''a'']"
proof -
  have "dom example_data = {''a'', ''b''}"
    by (auto simp: example_data_def)
  with assms show ?thesis
    by (intro two_key_traversals) (simp_all add: traversal_def)
qed

lemma example_data_range:
  "range_map example_data [''a'', ''b''] = [(''a'', Float 1.25), (''b'', Float 2)] \<and>
   range_map example_data [''b'', ''a''] = [(''b'', Float 2), (''a'', Float 1.25)]"
  by (simp add: range_map_def example_data_def)

lemma append_Dimensions_single:
  "append_Dimensions w [dimension] = [to_Dimension dimension]"
  by (simp add: append_Dimensions_def)

text \<open>
  C3. For the data \<^verbatim>\<open>{a: 1.25, b: 2}\<close> and the mappings of \<^verbatim>\<open>a\<close> to \<^verbatim>\<open>A\<close> without dimensions
  and of \<^verbatim>\<open>b\<close> to \<^verbatim>\<open>B\<close> with the dimension \<^verbatim>\<open>Goal=Fitness\<close>, the loop assembles exactly
  two metric data: \<^verbatim>\<open>A\<close> with value 1.25 and no dimension, and \<^verbatim>\<open>B\<close> with value 2.00 and the
  one dimension, in one of the two orders in which the keys can be visited, stamped by the
  first and the second reading of the clock.
\<close>

theorem example_assembly:
  assumes "MetricMappings config = example_mappings"
    and "traversal example_data (range_publishMetrics w)"
  shows "build_metricData w example_data config =
           [\<lparr>MetricName = ''A'', md_Value = Float 1.25, Timestamp = Now w 0, Unit = StandardUnitCount,
             Dimensions = []\<rparr>,
            \<lparr>MetricName = ''B'', md_Value = Float 2.00, Timestamp = Now w 1, Unit = StandardUnitCount,
             Dimensions = [\<lparr>Name = ''Goal'', Value = ''Fitness''\<rparr>]\<rparr>]
         \<or> build_metricData w example_data config =
           [\<lparr>MetricName = ''B'', md_Value = Float 2.00, Timestamp = Now w 0, Unit = StandardUnitCount,
             Dimensions = [\<lparr>Name = ''Goal'', Value = ''Fitness''\<rparr>]\<rparr>,
            \<lparr>MetricName = ''A'', md_Value = Float 1.25, Timestamp = Now w 1, Unit = StandardUnitCount,
             Dimensions = []\<rparr>]"
proof -
  have a: "MetricMappings config ''a'' = Some \<lparr>mm_Name = ''A'', mm_Dimensions = []\<rparr>"
    by (simp add: assms(1) example_mappings_def)
  have b: "MetricMappings config ''b'' =
      Some \<lparr>mm_Name = ''B'', mm_Dimensions = [\<lparr>dim_Name = ''Goal'', dim_Value = ''Fitness''\<rparr>]\<rparr>"
    by (simp add: assms(1) example_mappings_def)
  have no_dims: "append_Dimensions w [] = []"
    by (simp add: append_Dimensions_def)
  from example_traversals [OF assms(2)] show ?thesis
  proof
    assume "range_publishMetrics w = [''a'', ''b'']"
    then have "build_metricData w example_data config =
        foldl (append_MetricDatum w config) [] [(''a'', Float 1.25), (''b'', Float 2)]"
      using example_data_range by (simp add: build_metricData_def)
    then show ?thesis
      using a b
      by (simp add: append_MetricDatum_mapped append_Dimensions_single no_dims to_Dimension_def
          rounded_examples)
  next
    assume "range_publishMetrics w = [''b'', ''a'']"
    then have "build_metricData w example_data config =
        foldl (append_MetricDatum w config) [] [(''b'', Float 2), (''a'', Float 1.25)]"
      using example_data_range by (simp add: build_metricData_def)
    then show ?thesis
      using a b
      by (simp add: append_MetricDatum_mapped append_Dimensions_single no_dims to_Dimension_def
          rounded_examples)
  qed
qed

theorem example_assembly_witness:
  "MetricMappings example_config = example_mappings \<and>
   traversal example_data (range_publishMetrics example_world) \<and>
   build_metricData example_world example_data example_config =
     [\<lparr>MetricName = ''B'', md_Value = Float 2.00, Timestamp = 1700000000, Unit = StandardUnitCount,
       Dimensions = [\<lparr>Name = ''Goal'', Value = ''Fitness''\<rparr>]\<rparr>,
      \<lparr>MetricName = ''A'', md_Value = Float 1.25, Timestamp = 1700000001, Unit = StandardUnitCount,
       Dimensions = []\<rparr>]"
proof -
  have mappings: "MetricMappings example_config = example_mappings"
    by (simp add: example_config_def)
  have order: "traversal example_data (range_publishMetrics example_world)"
    by (auto simp: traversal_def example_world_def example_data_def)
  have clock: "Now example_world 0 = 1700000000 \<and> Now example_world 1 = 1700000001"
    by (simp add: example_world_def)
  have first: "map MetricName (build_metricData example_world example_data example_config) \<noteq>
      [''A'', ''B'']"
    using example_data_range
    by (simp add: build_metricData_def example_world_def append_MetricDatum_def
        example_config_def example_mappings_def Let_def)
  show ?thesis
    using example_assembly [OF mappings order] mappings order clock first
    by auto
qed

section \<open>The preview table\<close>

text \<open>
  C9. The table is built from every observed key, mapped or not: for the single observed key
  \<^verbatim>\<open>x\<close> and no mapping at all it has a data row, with an empty name and an empty dimension
  summary, while the batch assembled from the same input holds no datum. The dimension
  summary of a mapped key ends with a space. On an empty data set the table is the header
  alone.
\<close>

theorem preview_row_for_unmapped_key:
  "build_table (w\<lparr>range_printTable := [''x'']\<rparr>) [''x'' \<mapsto> Float 1]
       (config\<lparr>MetricMappings := Map.empty\<rparr>) =
     [[Str ''Metric name'', Str ''Value'', Str ''Dimensions''], [Str '''', Sprint (Float 1), Str '''']] \<and>
   build_metricData (w\<lparr>range_publishMetrics := [''x'']\<rparr>) [''x'' \<mapsto> Float 1]
       (config\<lparr>MetricMappings := Map.empty\<rparr>) = [] \<and>
   dimensions_text [\<lparr>dim_Name = ''Goal'', dim_Value = ''Fitness''\<rparr>] = ''Goal=Fitness '' \<and>
   build_table w Map.empty config = [[Str ''Metric name'', Str ''Value'', Str ''Dimensions'']]"
  by (simp add: build_table_rows build_metricData_def range_map_def table_header_def table_row_def
      index_MetricMappings_def zero_MetricMapping_def dimensions_text_def rounded_examples
      append_MetricDatum_def map_filter_def)

section \<open>Order of the preview and of the batch\<close>

lemma zip_with_image: "zip xs (map f xs) = map (\<lambda>x. (x, f x)) xs"
  by (induction xs) simp_all

lemma keyed_rows:
  assumes "traversal data (range_printTable w)"
  shows "zip (range_printTable w) (tl (build_table w data config)) =
     map (\<lambda>k. (k, table_row config (k, the (data k)))) (range_printTable w)"
proof -
  have "set (range_printTable w) \<subseteq> dom data"
    using assms by (simp add: traversal_def)
  then have "tl (build_table w data config) =
      map (\<lambda>k. table_row config (k, the (data k))) (range_printTable w)"
    by (simp add: build_table_rows range_map_traversal comp_def)
  then show ?thesis
    by (simp add: zip_with_image)
qed


lemma table_row_mapped:
  "MetricMappings config k = Some metric \<Longrightarrow>
   table_row config (k, v) =
     [Str (mm_Name metric), Sprint (fdiv (Round (fmul v 100)) 100),
      Str (dimensions_text (mm_Dimensions metric))]"
  by (simp add: table_row_def index_MetricMappings_def)

lemma traversals_same_mset:
  assumes "traversal m ks" "traversal m ks'"
  shows "mset ks = mset ks'"
  using assms by (simp add: traversal_def set_eq_iff_mset_eq_distinct [symmetric])

text \<open>
  C8, as the code has it. The rows of the mapped keys and the batch hold the same names and
  values, each as often: they agree up to order. Each list follows the order in which its own
  loop visits the keys of the data map, so they are in the same order when the two loops
  visit the keys in the same order.
\<close>

theorem preview_and_batch_agree_up_to_order:
  assumes "traversal data (range_printTable w)" "traversal data (range_publishMetrics w)"
  shows "mset (map (\<lambda>kr. take 2 (snd kr))
                 (filter (\<lambda>kr. fst kr \<in> dom (MetricMappings config))
                    (zip (range_printTable w) (tl (build_table w data config))))) =
         mset (map (\<lambda>d. [Str (MetricName d), Sprint (md_Value d)]) (build_metricData w data config))
       \<and> (range_printTable w = range_publishMetrics w \<longrightarrow>
            map (\<lambda>kr. take 2 (snd kr))
              (filter (\<lambda>kr. fst kr \<in> dom (MetricMappings config))
                 (zip (range_printTable w) (tl (build_table w data config)))) =
            map (\<lambda>d. [Str (MetricName d), Sprint (md_Value d)]) (build_metricData w data config))"
proof -
  define D where "D = dom (MetricMappings config)"
  define cells where "cells = (\<lambda>k. [Str (mm_Name (the (MetricMappings config k))),
      Sprint (fdiv (Round (fmul (the (data k)) 100)) 100)])"
  have rows: "map (\<lambda>kr. take 2 (snd kr))
      (filter (\<lambda>kr. fst kr \<in> D) (zip (range_printTable w) (tl (build_table w data config)))) =
      map cells (filter (\<lambda>k. k \<in> D) (range_printTable w))"
  proof -
    have "map (\<lambda>kr. take 2 (snd kr))
        (filter (\<lambda>kr. fst kr \<in> D) (zip (range_printTable w) (tl (build_table w data config)))) =
        map (\<lambda>k. take 2 (table_row config (k, the (data k))))
          (filter (\<lambda>k. k \<in> D) (range_printTable w))"
      by (simp add: keyed_rows [OF assms(1)] filter_map comp_def)
    also have "\<dots> = map cells (filter (\<lambda>k. k \<in> D) (range_printTable w))"
    proof (rule map_cong [OF refl])
      fix k assume "k \<in> set (filter (\<lambda>k. k \<in> D) (range_printTable w))"
      then obtain metric where "MetricMappings config k = Some metric"
        by (auto simp: D_def)
      then show "take 2 (table_row config (k, the (data k))) = cells k"
        by (simp add: table_row_mapped cells_def)
    qed
    finally show ?thesis .
  qed
  have "map (\<lambda>d. [Str (MetricName d), Sprint (md_Value d)]) (build_metricData w data config) =
      map (\<lambda>r. [Str (fst r), Sprint (fst (snd r))]) (map record_of (build_metricData w data config))"
    by (simp add: record_of_def comp_def)
  also have "\<dots> = map cells (filter (\<lambda>k. k \<in> D) (range_publishMetrics w))"
    by (simp only: build_metricData_by_key [OF assms(2)]) (simp add: comp_def cells_def D_def)
  finally have data: "map (\<lambda>d. [Str (MetricName d), Sprint (md_Value d)])
      (build_metricData w data config) = map cells (filter (\<lambda>k. k \<in> D) (range_publishMetrics w))" .
  have same: "mset (map cells (filter (\<lambda>k. k \<in> D) (range_printTable w))) =
      mset (map cells (filter (\<lambda>k. k \<in> D) (range_publishMetrics w)))"
    using traversals_same_mset [OF assms] by simp
  have up_to_order: "mset (map (\<lambda>kr. take 2 (snd kr))
        (filter (\<lambda>kr. fst kr \<in> D) (zip (range_printTable w) (tl (build_table w data config))))) =
      mset (map (\<lambda>d. [Str (MetricName d), Sprint (md_Value d)]) (build_metricData w data config))"
    unfolding rows data by (rule same)
  have in_order: "range_printTable w = range_publishMetrics w \<longrightarrow>
      map (\<lambda>kr. take 2 (snd kr))
        (filter (\<lambda>kr. fst kr \<in> D) (zip (range_printTable w) (tl (build_table w data config)))) =
      map (\<lambda>d. [Str (MetricName d), Sprint (md_Value d)]) (build_metricData w data config)"
    unfolding rows data by simp
  show ?thesis
    using up_to_order in_order unfolding D_def by (rule conjI)
qed

theorem preview_and_batch_agree_up_to_order_witness:
  "traversal example_data (range_printTable example_world) \<and>
   traversal example_data (range_publishMetrics example_world) \<and>
   mset (map (\<lambda>d. [Str (MetricName d), Sprint (md_Value d)])
          (build_metricData example_world example_data example_config)) =
     {#[Str ''A'', Sprint (Float 1.25)], [Str ''B'', Sprint (Float 2)]#} \<and>
   range_printTable (example_world\<lparr>range_publishMetrics := [''a'', ''b'']\<rparr>) =
     range_publishMetrics (example_world\<lparr>range_publishMetrics := [''a'', ''b'']\<rparr>) \<and>
   map (\<lambda>d. [Str (MetricName d), Sprint (md_Value d)])
     (build_metricData (example_world\<lparr>range_publishMetrics := [''a'', ''b'']\<rparr>) example_data
        example_config) =
     [[Str ''A'', Sprint (Float 1.25)], [Str ''B'', Sprint (Float 2)]]"
proof -
  let ?same = "example_world\<lparr>range_publishMetrics := [''a'', ''b'']\<rparr>"
  have print: "traversal example_data (range_printTable example_world)"
    "traversal example_data (range_printTable ?same)"
    by (auto simp: traversal_def example_world_def example_data_def)
  have publish: "traversal example_data (range_publishMetrics example_world)"
    "traversal example_data (range_publishMetrics ?same)"
    by (auto simp: traversal_def example_world_def example_data_def)
  have keys: "range_printTable example_world = [''a'', ''b'']"
    "range_printTable ?same = [''a'', ''b'']"
    by (simp_all add: example_world_def)
  have table: "build_table ?same example_data example_config =
      build_table example_world example_data example_config"
    by (simp add: build_table_def)
  have rows: "zip (range_printTable example_world)
      (tl (build_table example_world example_data example_config)) =
      [(''a'', [Str ''A'', Sprint (Float 1.25), Str '''']), (''b'', [Str ''B'', Sprint (Float 2), Str ''Goal=Fitness ''])]"
    using example_rows keys(1) by (simp add: example_table)
  have mapped: "''a'' \<in> dom (MetricMappings example_config) \<and>
      ''b'' \<in> dom (MetricMappings example_config)"
    by (simp add: example_config_def example_mappings_def)
  have same: "range_printTable ?same = range_publishMetrics ?same"
    by (simp add: example_world_def)
  have first: "mset (map (\<lambda>d. [Str (MetricName d), Sprint (md_Value d)])
          (build_metricData example_world example_data example_config)) =
     {#[Str ''A'', Sprint (Float 1.25)], [Str ''B'', Sprint (Float 2)]#}"
    using preview_and_batch_agree_up_to_order [OF print(1) publish(1), of example_config,
        THEN conjunct1] rows mapped
    by simp
  have second: "map (\<lambda>d. [Str (MetricName d), Sprint (md_Value d)])
      (build_metricData ?same example_data example_config) =
     [[Str ''A'', Sprint (Float 1.25)], [Str ''B'', Sprint (Float 2)]]"
    using preview_and_batch_agree_up_to_order [OF print(2) publish(2), of example_config,
        THEN conjunct2, THEN mp, OF same] rows mapped keys(2) table
    by simp
  show ?thesis
    using print(1) publish(1) first same second by simp
qed

text \<open>
  C8 as stated fails: in a run on the example in which the first loop visits \<^verbatim>\<open>a\<close> before
  \<^verbatim>\<open>b\<close> and the second \<^verbatim>\<open>b\<close> before \<^verbatim>\<open>a\<close>, both being orders a \<^verbatim>\<open>range\<close> over the map can
  take, the table lists \<^verbatim>\<open>A\<close> then \<^verbatim>\<open>B\<close> and the batch holds \<^verbatim>\<open>B\<close> then \<^verbatim>\<open>A\<close>; and a run on the
  same data and configuration whose second loop visits \<^verbatim>\<open>a\<close> first assembles the batch in
  the other order.
\<close>

theorem preview_order_differs_from_batch_order:
  "traversal example_data (range_printTable example_world) \<and>
   traversal example_data (range_publishMetrics example_world) \<and>
   traversal example_data (range_publishMetrics (example_world\<lparr>range_publishMetrics := [''a'', ''b'']\<rparr>)) \<and>
   map hd (tl (build_table example_world example_data example_config)) = [Str ''A'', Str ''B''] \<and>
   map (\<lambda>d. Str (MetricName d)) (build_metricData example_world example_data example_config) =
     [Str ''B'', Str ''A''] \<and>
   map hd (tl (build_table example_world example_data example_config)) \<noteq>
     map (\<lambda>d. Str (MetricName d)) (build_metricData example_world example_data example_config) \<and>
   map (\<lambda>d. Str (MetricName d))
     (build_metricData (example_world\<lparr>range_publishMetrics := [''a'', ''b'']\<rparr>) example_data
        example_config) = [Str ''A'', Str ''B'']"
proof -
  have orders: "traversal example_data [''a'', ''b''] \<and> traversal example_data [''b'', ''a'']"
    by (auto simp: traversal_def example_data_def)
  have table: "map hd (tl (build_table example_world example_data example_config)) =
      [Str ''A'', Str ''B'']"
    using example_rows by (simp add: example_table)
  have batch: "map (\<lambda>d. Str (MetricName d))
      (build_metricData example_world example_data example_config) = [Str ''B'', Str ''A'']"
    using example_data_range
    by (simp add: build_metricData_def example_world_def append_MetricDatum_def
        example_config_def example_mappings_def Let_def)
  have again: "map (\<lambda>d. Str (MetricName d))
      (build_metricData (example_world\<lparr>range_publishMetrics := [''a'', ''b'']\<rparr>) example_data
        example_config) = [Str ''A'', Str ''B'']"
    using example_data_range
    by (simp add: build_metricData_def append_MetricDatum_def
        example_config_def example_mappings_def Let_def)
  show ?thesis
    using orders table batch again by (simp add: example_world_def)
qed

section \<open>Rounding\<close>







text \<open>
  The rounding of the specification is what its name says: a multiple of the unit, at most
  half a unit from the value, and farther from zero than the value when it is exactly half a
  unit away.
\<close>

lemma round_half_away_from_zero_nearest:
  "\<bar>round_half_away_from_zero digits x - x\<bar> * 10 ^ digits \<le> 1 / 2 \<and>
   (\<bar>round_half_away_from_zero digits x - x\<bar> * 10 ^ digits = 1 / 2 \<longrightarrow>
      \<bar>x\<bar> < \<bar>round_half_away_from_zero digits x\<bar>)"
proof -
  define u :: real where "u = 10 ^ digits"
  define n :: int where "n = \<lfloor>\<bar>x\<bar> * u + 1 / 2\<rfloor>"
  have u: "0 < u"
    by (simp add: u_def)
  have n: "of_int n \<le> \<bar>x\<bar> * u + 1 / 2" "\<bar>x\<bar> * u + 1 / 2 < of_int n + 1"
    unfolding n_def by linarith+
  have r: "round_half_away_from_zero digits x = sgn x * (of_int n / u)"
    by (simp add: round_half_away_from_zero_def n_def u_def)
  have x: "x = sgn x * \<bar>x\<bar>"
    by (simp add: sgn_mult_abs)
  have "round_half_away_from_zero digits x - x = sgn x * (of_int n / u - \<bar>x\<bar>)"
    unfolding r using x by (metis right_diff_distrib)
  then have "\<bar>round_half_away_from_zero digits x - x\<bar> = \<bar>sgn x\<bar> * \<bar>of_int n / u - \<bar>x\<bar>\<bar>"
    by (simp add: abs_mult)
  moreover have "\<bar>of_int n / u - \<bar>x\<bar>\<bar> * u = \<bar>of_int n - \<bar>x\<bar> * u\<bar>"
  proof -
    have "(of_int n / u - \<bar>x\<bar>) * u = of_int n - \<bar>x\<bar> * u"
      using u by (simp add: field_simps)
    then have "\<bar>(of_int n / u - \<bar>x\<bar>) * u\<bar> = \<bar>of_int n - \<bar>x\<bar> * u\<bar>"
      by simp
    then show ?thesis
      using u by (simp add: abs_mult)
  qed
  ultimately have dist: "\<bar>round_half_away_from_zero digits x - x\<bar> * u =
      \<bar>sgn x\<bar> * \<bar>of_int n - \<bar>x\<bar> * u\<bar>"
    by (simp add: mult.assoc)
  have near: "\<bar>of_int n - \<bar>x\<bar> * u\<bar> \<le> 1 / 2"
    using n by linarith
  have sgn_le: "\<bar>sgn x\<bar> \<le> 1" "0 \<le> \<bar>sgn x\<bar>"
    by (simp_all add: abs_sgn_eq)
  have first: "\<bar>round_half_away_from_zero digits x - x\<bar> * u \<le> 1 / 2"
  proof -
    have "\<bar>sgn x\<bar> * \<bar>of_int n - \<bar>x\<bar> * u\<bar> \<le> 1 * (1 / 2)"
      using sgn_le near by (intro mult_mono) simp_all
    then show ?thesis
      using dist by simp
  qed
  have second: "\<bar>x\<bar> < \<bar>round_half_away_from_zero digits x\<bar>"
    if tie: "\<bar>round_half_away_from_zero digits x - x\<bar> * u = 1 / 2"
  proof -
    have nz: "x \<noteq> 0"
      using tie by (auto simp: r)
    then have one: "\<bar>sgn x\<bar> = 1"
      by (simp add: abs_sgn_eq)
    with dist tie have "\<bar>of_int n - \<bar>x\<bar> * u\<bar> = 1 / 2"
      by simp
    with n have "of_int n = \<bar>x\<bar> * u + 1 / 2"
      by linarith
    then have "\<bar>x\<bar> * u < of_int n"
      by simp
    then have less: "\<bar>x\<bar> < of_int n / u"
      using u by (simp add: field_simps)
    then have "0 \<le> of_int n / u"
      using abs_ge_zero [of x] by linarith
    then have "\<bar>of_int n / u\<bar> = of_int n / u"
      by (rule abs_of_nonneg)
    then have "\<bar>sgn x * (of_int n / u)\<bar> = of_int n / u"
      using one by (simp only: abs_mult mult_1)
    with less show ?thesis
      unfolding r by simp
  qed
  show ?thesis
    using first second unfolding u_def by blast
qed

section \<open>The value shown and the value published\<close>











end
